theory Spec2Isabelle
  imports Complex_Main "HOL-Library.AList"
begin

section \<open>JavaScript values\<close>

text \<open>
  The values that flow through the retry engine are untyped at run time
  (\<^verbatim>\<open>err: any\<close>, \<^verbatim>\<open>fn: () => Promise<any>\<close>), and the engine
  branches on their truthiness. They are modelled by a datatype of JavaScript
  values: the primitives, functions (the lock primitive resolves with a release
  function) and plain objects as lists of fields. Numbers are the integer-valued
  ones; NaN is left out.
\<close>

datatype jsval =
    JUndefined
  | JNull
  | JBool bool
  | JNum int
  | JStr string
  | JFun string
  | JObj "(string \<times> jsval) list"

text \<open>The truthiness test of \<^verbatim>\<open>if (x)\<close>.\<close>

fun truthy :: "jsval \<Rightarrow> bool" where
  "truthy JUndefined = False"
| "truthy JNull = False"
| "truthy (JBool b) = b"
| "truthy (JNum n) = (n \<noteq> 0)"
| "truthy (JStr s) = (s \<noteq> [])"
| "truthy (JFun f) = True"
| "truthy (JObj fs) = True"

text \<open>A settled promise: resolved with a value or rejected with a reason.\<close>

datatype 'a completion = Resolved 'a | Rejected jsval

section \<open>LockUtils: the jittered timeout\<close>

text \<open>
  \<^verbatim>\<open>setJitterTimeout(delay, jitter)\<close> waits \<^verbatim>\<open>calcTime()\<close> milliseconds:
  \<^verbatim>\<open>
  jitter = jitter > 0 ? Math.max(1, Math.floor(Math.random() * jitter)) : 0;
  return Math.max(0, delay + jitter);
  \<close>
  A number is the real that the binary64 value denotes, and the draw of
  \<^verbatim>\<open>Math.random()\<close> is the parameter \<open>rnd\<close>, a binary64 number in \<open>[0, 1)\<close>. The
  product \<^verbatim>\<open>Math.random() * jitter\<close> is the exact product rounded to the nearest
  binary64 number, ties to the even significand: \<open>round64\<close>, with 53 significant
  bits above the least normal exponent \<open>-1022\<close> and the fixed spacing of the
  subnormals below it (a product of a draw below 1 cannot overflow). The floor,
  the maxima and the sum are taken exactly; the infinities and NaN are left out.
  \<open>calcTime_jitter\<close> is the value that the first line assigns to \<^verbatim>\<open>jitter\<close>.
\<close>

definition roundHalfEven :: "real \<Rightarrow> int" where
  "roundHalfEven y =
     (if y - of_int \<lfloor>y\<rfloor> < 1 / 2 then \<lfloor>y\<rfloor>
      else if 1 / 2 < y - of_int \<lfloor>y\<rfloor> then \<lfloor>y\<rfloor> + 1
      else if even \<lfloor>y\<rfloor> then \<lfloor>y\<rfloor> else \<lfloor>y\<rfloor> + 1)"

definition binade :: "real \<Rightarrow> int" where
  "binade x = max \<lfloor>log 2 \<bar>x\<bar>\<rfloor> (- 1022)"

definition round64 :: "real \<Rightarrow> real" where
  "round64 x =
     (if x = 0 then 0
      else 2 powi (binade x - 52) * of_int (roundHalfEven (x / 2 powi (binade x - 52))))"

definition calcTime_jitter :: "real \<Rightarrow> real \<Rightarrow> real" where
  "calcTime_jitter jitter rnd =
     (if jitter > 0 then max 1 (of_int \<lfloor>round64 (rnd * jitter)\<rfloor>) else 0)"

definition calcTime :: "real \<Rightarrow> real \<Rightarrow> real \<Rightarrow> real" where
  "calcTime delay jitter rnd = max 0 (delay + calcTime_jitter jitter rnd)"

text \<open>The duration handed to \<^verbatim>\<open>setTimeout\<close>.\<close>

definition setJitterTimeout :: "real \<Rightarrow> real \<Rightarrow> real \<Rightarrow> real" where
  "setJitterTimeout delay jitter rnd = calcTime delay jitter rnd"

section \<open>LockUtils: the retry engine\<close>

record AttemptSettings =
  retryCount :: int
  retryDelay :: real
  retryJitter :: real

text \<open>
  The outcome of one attempt. A field the object literal leaves out reads as
  \<^verbatim>\<open>undefined\<close>, so an absent \<^verbatim>\<open>response\<close> or \<^verbatim>\<open>error\<close> is \<open>JUndefined\<close>.
\<close>

record LockRequestState =
  shouldRetry :: bool
  response :: jsval
  error :: jsval

text \<open>Decimal printing of a number inside a template literal.\<close>

fun digitsOf :: "nat \<Rightarrow> string" where
  "digitsOf n =
     (if n < 10 then [''0123456789'' ! n]
      else digitsOf (n div 10) @ [''0123456789'' ! (n mod 10)])"

definition numberToString :: "int \<Rightarrow> string" where
  "numberToString i = (if i < 0 then CHR ''-'' # digitsOf (nat (- i)) else digitsOf (nat i))"

text \<open>
  \<^verbatim>\<open>maxTries\<close> is \<^verbatim>\<open>Number.POSITIVE_INFINITY\<close> (here \<open>None\<close>) when
  \<^verbatim>\<open>retryCount === -1\<close>, and \<^verbatim>\<open>retryCount + 1\<close> otherwise.
\<close>

definition maxTriesOf :: "AttemptSettings \<Rightarrow> int option" where
  "maxTriesOf settings =
     (if retryCount settings = - 1 then None else Some (retryCount settings + 1))"

fun withinMaxTries :: "int \<Rightarrow> int option \<Rightarrow> bool" where
  "withinMaxTries tries None = True"
| "withinMaxTries tries (Some m) = (tries \<le> m)"

fun exceedsMaxTries :: "int \<Rightarrow> int option \<Rightarrow> bool" where
  "exceedsMaxTries tries None = False"
| "exceedsMaxTries tries (Some m) = (tries > m)"

fun maxTriesToString :: "int option \<Rightarrow> string" where
  "maxTriesToString None = ''Infinity''"
| "maxTriesToString (Some m) = numberToString m"

text \<open>
  Modelled from the spec: the class \<^verbatim>\<open>InternalServerError\<close> of
  \<^verbatim>\<open>util/errors/InternalServerError\<close> is not among the sources; the spec calls it
  an internal error that wraps a message. It is an error object with a name and
  that message.
\<close>

definition InternalServerError :: "string \<Rightarrow> jsval" where
  "InternalServerError msg =
     JObj [(''name'', JStr ''InternalServerError''), (''message'', JStr msg)]"

definition maxTriesError :: "int option \<Rightarrow> jsval" where
  "maxTriesError maxTries =
     InternalServerError
       (''The operation did not succeed after the set maximum of tries (''
          @ maxTriesToString maxTries @ '').'')"

text \<open>
  What a run of \<^verbatim>\<open>retryFunctionUntil\<close> leaves behind: how its promise settled,
  how many times it invoked \<^verbatim>\<open>fn\<close>, the durations it slept, in order, and the
  state of the world after the last invocation.
\<close>

record 'w run =
  outcome :: "jsval completion"
  calls :: nat
  slept :: "real list"
  world :: 'w

text \<open>
  The loop of \<^verbatim>\<open>retryFunctionUntil\<close> together with the check that follows it:
  \<^verbatim>\<open>
  while (state.shouldRetry && tries <= maxTries) {
    state = await fn();
    if (state.shouldRetry) { await setJitterTimeout(retryDelay, retryJitter); tries += 1; }
    else if (state.error) { throw state.error; }
    else if (state.response) { return state.response; }
  }
  if (tries > maxTries) { ...; throw new InternalServerError(err); }
  \<close>
  An attempt is a function of the world (the lock files, other processes) that
  settles and leaves a new world; an attempt whose own promise rejects makes the
  \<^verbatim>\<open>await\<close> throw. The draws of \<^verbatim>\<open>Math.random()\<close> are the sequence \<open>rnd\<close>, one
  per sleep. With unbounded \<^verbatim>\<open>maxTries\<close> the loop need not end: \<open>None\<close> is a run
  that never settles.
\<close>

partial_function (option) retryLoop ::
  "('w \<Rightarrow> LockRequestState completion \<times> 'w) \<Rightarrow> int option \<Rightarrow> real \<Rightarrow> real \<Rightarrow> (nat \<Rightarrow> real)
     \<Rightarrow> int \<Rightarrow> LockRequestState \<Rightarrow> nat \<Rightarrow> real list \<Rightarrow> 'w \<Rightarrow> 'w run option"
where
  "retryLoop fn maxTries delay jitter rnd tries state n zs w =
     (if shouldRetry state \<and> withinMaxTries tries maxTries then
        (case fn w of
           (Rejected err, w') \<Rightarrow>
             Some \<lparr>outcome = Rejected err, calls = Suc n, slept = zs, world = w'\<rparr>
         | (Resolved state', w') \<Rightarrow>
             if shouldRetry state' then
               retryLoop fn maxTries delay jitter rnd (tries + 1) state' (Suc n)
                 (zs @ [setJitterTimeout delay jitter (rnd (length zs))]) w'
             else if truthy (error state') then
               Some \<lparr>outcome = Rejected (error state'), calls = Suc n, slept = zs, world = w'\<rparr>
             else if truthy (response state') then
               Some \<lparr>outcome = Resolved (response state'), calls = Suc n, slept = zs, world = w'\<rparr>
             else retryLoop fn maxTries delay jitter rnd tries state' (Suc n) zs w')
      else if exceedsMaxTries tries maxTries then
        Some \<lparr>outcome = Rejected (maxTriesError maxTries), calls = n, slept = zs, world = w\<rparr>
      else Some \<lparr>outcome = Resolved JUndefined, calls = n, slept = zs, world = w\<rparr>)"

declare retryLoop.simps [code]

definition retryFunctionUntil ::
  "('w \<Rightarrow> LockRequestState completion \<times> 'w) \<Rightarrow> AttemptSettings \<Rightarrow> (nat \<Rightarrow> real) \<Rightarrow> 'w
     \<Rightarrow> 'w run option"
where
  "retryFunctionUntil fn settings rnd w =
     retryLoop fn (maxTriesOf settings) (retryDelay settings) (retryJitter settings) rnd
       1 \<lparr>shouldRetry = True, response = JUndefined, error = JUndefined\<rparr> 0 [] w"

text \<open>
  The two adapters. \<^verbatim>\<open>toRetryOnError\<close>:
  \<^verbatim>\<open>
  fn().then((response) => ({ shouldRetry: false, response }))
      .catch((err) => ({ shouldRetry: !stopCondition(err), error: err }))
  \<close>
  and \<^verbatim>\<open>toRetryOnBoolean\<close>:
  \<^verbatim>\<open>
  fn().then((response) => ({ shouldRetry: response === retryValue, response }))
      .catch((err) => ({ shouldRetry: false, error: err }))
  \<close>
  Strict equality with a boolean holds for that boolean only.
\<close>

definition toRetryOnError ::
  "(jsval \<Rightarrow> bool) \<Rightarrow> ('w \<Rightarrow> jsval completion \<times> 'w) \<Rightarrow> 'w \<Rightarrow> LockRequestState completion \<times> 'w"
where
  "toRetryOnError stopCondition fn w =
     (case fn w of
        (Resolved resp, w') \<Rightarrow>
          (Resolved \<lparr>shouldRetry = False, response = resp, error = JUndefined\<rparr>, w')
      | (Rejected err, w') \<Rightarrow>
          (Resolved \<lparr>shouldRetry = \<not> stopCondition err, response = JUndefined, error = err\<rparr>, w'))"

definition toRetryOnBoolean ::
  "bool \<Rightarrow> ('w \<Rightarrow> jsval completion \<times> 'w) \<Rightarrow> 'w \<Rightarrow> LockRequestState completion \<times> 'w"
where
  "toRetryOnBoolean retryValue fn w =
     (case fn w of
        (Resolved resp, w') \<Rightarrow>
          (Resolved \<lparr>shouldRetry = (resp = JBool retryValue), response = resp, error = JUndefined\<rparr>, w')
      | (Rejected err, w') \<Rightarrow>
          (Resolved \<lparr>shouldRetry = False, response = JUndefined, error = err\<rparr>, w'))"

section \<open>FileSystemResourceLocker\<close>

record ResourceIdentifier =
  path :: string

text \<open>Reading a property of a value; a missing property reads as \<^verbatim>\<open>undefined\<close>.\<close>

fun getProp :: "jsval \<Rightarrow> string \<Rightarrow> jsval" where
  "getProp (JObj fs) k = (case map_of fs k of Some v \<Rightarrow> v | None \<Rightarrow> JUndefined)"
| "getProp v k = JUndefined"

text \<open>
  \<^verbatim>\<open>typeof err === 'object' && err !== null && 'code' in err\<close>
\<close>

fun isCodedError :: "jsval \<Rightarrow> bool" where
  "isCodedError (JObj fs) = (map_of fs ''code'' \<noteq> None)"
| "isCodedError v = False"

text \<open>
  \<^verbatim>\<open>stopOnError = (err) => isCodedError(err) && err.code === 'ENOTACQUIRED'\<close>,
  the one stop condition of the class, used by \<^verbatim>\<open>acquire\<close> and
  \<^verbatim>\<open>release\<close> alike.
\<close>

definition stopOnError :: "jsval \<Rightarrow> bool" where
  "stopOnError err = (isCodedError err \<and> getProp err ''code'' = JStr ''ENOTACQUIRED'')"

definition defaultLockOptions :: "(string \<times> jsval) list" where
  "defaultLockOptions = [(''realpath'', JBool False), (''retries'', JNum 0)]"

definition defaultUnlockOptions :: "(string \<times> jsval) list" where
  "defaultUnlockOptions = [(''realpath'', JBool False)]"

definition attemptDefaults :: AttemptSettings where
  "attemptDefaults = \<lparr>retryCount = - 1, retryDelay = 50, retryJitter = 30\<rparr>"

text \<open>
  What the class takes from outside the repository: \<^verbatim>\<open>lock\<close> and \<^verbatim>\<open>unlock\<close> of
  proper-lockfile, which settle depending on the world and change it; the MD5
  digest in hexadecimal; and, from modules of the repository that are not among
  the sources, \<^verbatim>\<open>joinFilePath\<close> and \<^verbatim>\<open>createErrorMessage\<close>. \<open>random\<close> is the
  sequence of draws of \<^verbatim>\<open>Math.random()\<close>.
\<close>

record 'w externals =
  lock :: "string \<Rightarrow> (string \<times> jsval) list \<Rightarrow> 'w \<Rightarrow> jsval completion \<times> 'w"
  unlock :: "string \<Rightarrow> (string \<times> jsval) list \<Rightarrow> 'w \<Rightarrow> jsval completion \<times> 'w"
  md5hex :: "string \<Rightarrow> string"
  joinFilePath :: "string \<Rightarrow> string \<Rightarrow> string"
  createErrorMessage :: "jsval \<Rightarrow> string"
  random :: "nat \<Rightarrow> real"

record FileSystemResourceLocker =
  attemptSettings :: AttemptSettings
  lockFolder :: string

definition retryUntilError ::
  "'w externals \<Rightarrow> FileSystemResourceLocker \<Rightarrow> ('w \<Rightarrow> jsval completion \<times> 'w) \<Rightarrow> 'w
     \<Rightarrow> 'w run option"
where
  "retryUntilError X this fn w =
     retryFunctionUntil (toRetryOnError stopOnError fn) (attemptSettings this) (random X) w"

definition toLockfilePath :: "'w externals \<Rightarrow> FileSystemResourceLocker \<Rightarrow> ResourceIdentifier \<Rightarrow> string" where
  "toLockfilePath X this identifier =
     joinFilePath X (lockFolder this) (md5hex X (path identifier))"

text \<open>\<^verbatim>\<open>{ ...defaults, lockfilePath }\<close>\<close>

definition generateOptions ::
  "'w externals \<Rightarrow> FileSystemResourceLocker \<Rightarrow> ResourceIdentifier \<Rightarrow> (string \<times> jsval) list
     \<Rightarrow> (string \<times> jsval) list"
where
  "generateOptions X this identifier defaults =
     AList.update ''lockfilePath'' (JStr (toLockfilePath X this identifier)) defaults"

text \<open>
  \<^verbatim>\<open>acquire\<close> and \<^verbatim>\<open>release\<close> await the retried call inside \<^verbatim>\<open>try\<close>, discard
  its value, and rethrow whatever it throws as an \<^verbatim>\<open>InternalServerError\<close> whose
  message names the path and ends with \<^verbatim>\<open>createErrorMessage(err)\<close>. (The message of
  \<^verbatim>\<open>release\<close> has two blanks after the full stop.)
\<close>

definition wrapFailure :: "(jsval \<Rightarrow> jsval) \<Rightarrow> 'w run \<Rightarrow> 'w run" where
  "wrapFailure wrap r =
     (case outcome r of
        Resolved v \<Rightarrow> r\<lparr>outcome := Resolved JUndefined\<rparr>
      | Rejected err \<Rightarrow> r\<lparr>outcome := Rejected (wrap err)\<rparr>)"

definition acquire ::
  "'w externals \<Rightarrow> FileSystemResourceLocker \<Rightarrow> ResourceIdentifier \<Rightarrow> 'w \<Rightarrow> 'w run option"
where
  "acquire X this identifier w =
     (let opt = generateOptions X this identifier defaultLockOptions in
      map_option
        (wrapFailure (\<lambda>err. InternalServerError
           (''Error trying to acquire lock for '' @ path identifier @ ''. ''
              @ createErrorMessage X err)))
        (retryUntilError X this (lock X (path identifier) opt) w))"

definition release ::
  "'w externals \<Rightarrow> FileSystemResourceLocker \<Rightarrow> ResourceIdentifier \<Rightarrow> 'w \<Rightarrow> 'w run option"
where
  "release X this identifier w =
     (let opt = generateOptions X this identifier defaultUnlockOptions in
      map_option
        (wrapFailure (\<lambda>err. InternalServerError
           (''Error trying to release lock for '' @ path identifier @ ''.  ''
              @ createErrorMessage X err)))
        (retryUntilError X this (unlock X (path identifier) opt) w))"

text \<open>
  \<^verbatim>\<open>finalize\<close>:
  \<^verbatim>\<open>
  if (await pathExists(this.lockFolder)) {
    for (const dir of await readdir(this.lockFolder)) {
      await rmdir(`${this.lockFolder}/${dir}`);
    }
    await rmdir(this.lockFolder);
  }
  \<close>
  The three calls of fs-extra are parameters; each settles depending on the file
  system and changes it. A call that rejects ends \<^verbatim>\<open>finalize\<close> with that rejection.
\<close>

record 'w fsExtra =
  pathExists :: "string \<Rightarrow> 'w \<Rightarrow> bool completion \<times> 'w"
  readdir :: "string \<Rightarrow> 'w \<Rightarrow> string list completion \<times> 'w"
  rmdir :: "string \<Rightarrow> 'w \<Rightarrow> unit completion \<times> 'w"

fun rmdirEach :: "'w fsExtra \<Rightarrow> string \<Rightarrow> string list \<Rightarrow> 'w \<Rightarrow> unit completion \<times> 'w" where
  "rmdirEach F folder [] w = (Resolved (), w)"
| "rmdirEach F folder (dir # dirs) w =
     (case rmdir F (folder @ ''/'' @ dir) w of
        (Rejected err, w') \<Rightarrow> (Rejected err, w')
      | (Resolved u, w') \<Rightarrow> rmdirEach F folder dirs w')"

definition finalize :: "'w fsExtra \<Rightarrow> FileSystemResourceLocker \<Rightarrow> 'w \<Rightarrow> unit completion \<times> 'w" where
  "finalize F this w =
     (case pathExists F (lockFolder this) w of
        (Rejected err, w1) \<Rightarrow> (Rejected err, w1)
      | (Resolved exists, w1) \<Rightarrow>
          if exists then
            (case readdir F (lockFolder this) w1 of
               (Rejected err, w2) \<Rightarrow> (Rejected err, w2)
             | (Resolved dirs, w2) \<Rightarrow>
                 (case rmdirEach F (lockFolder this) dirs w2 of
                    (Rejected err, w3) \<Rightarrow> (Rejected err, w3)
                  | (Resolved u, w3) \<Rightarrow> rmdir F (lockFolder this) w3))
          else (Resolved (), w1))"

section \<open>The collaborators, as far as the claims name them\<close>

text \<open>
  Modelled from the spec: the lock primitive (proper-lockfile, not part of the
  repository) rejects \<^verbatim>\<open>lock\<close> with ``one specific code meaning already held by
  another caller''; the library's code for it is \<^verbatim>\<open>ELOCKED\<close>. Its code for an
  \<^verbatim>\<open>unlock\<close> of a lock that is not held is the \<^verbatim>\<open>ENOTACQUIRED\<close> that
  \<^verbatim>\<open>stopOnError\<close> tests.
\<close>

definition alreadyHeld :: "jsval \<Rightarrow> bool" where
  "alreadyHeld err = (isCodedError err \<and> getProp err ''code'' = JStr ''ELOCKED'')"

definition codedError :: "string \<Rightarrow> string \<Rightarrow> jsval" where
  "codedError code msg = JObj [(''code'', JStr code), (''message'', JStr msg)]"

text \<open>
  Modelled from the spec: \<^verbatim>\<open>createErrorMessage\<close> of \<^verbatim>\<open>util/errors/ErrorUtil\<close> is
  not among the sources; the wrapped error is said to carry the root cause, so the
  helper yields the message of the error it is given. It stands in for the
  parameter \<open>createErrorMessage\<close> in the concrete runs below.
\<close>

fun messageOf :: "jsval \<Rightarrow> string" where
  "messageOf (JObj fs) = (case map_of fs ''message'' of Some (JStr m) \<Rightarrow> m | _ \<Rightarrow> ''Unknown error'')"
| "messageOf v = ''Unknown error''"

text \<open>
  The file system under the lock folder, after Node's \<^verbatim>\<open>fs\<close>: the world is what
  lies at the path of the lock folder, nothing (\<open>None\<close>), a file, or a directory
  with its entries in the order \<^verbatim>\<open>readdir\<close> lists them. \<^verbatim>\<open>rmdir\<close> removes an empty
  directory and rejects with \<^verbatim>\<open>ENOTDIR\<close> on a file, with \<^verbatim>\<open>ENOTEMPTY\<close> on a
  directory that has entries and with \<^verbatim>\<open>ENOENT\<close> on a path that does not exist.
  Paths are resolved down to the entries of the folder, which is as deep as
  \<^verbatim>\<open>finalize\<close> looks.
\<close>

datatype fsnode = File | Dir "(string \<times> fsnode) list"

definition fsError :: "string \<Rightarrow> jsval" where
  "fsError code = JObj [(''code'', JStr code)]"

definition entryPaths :: "string \<Rightarrow> (string \<times> fsnode) list \<Rightarrow> (string \<times> fsnode) list" where
  "entryPaths folder es = map (\<lambda>(n, k). (folder @ ''/'' @ n, k)) es"

fun nodePathExists :: "string \<Rightarrow> string \<Rightarrow> fsnode option \<Rightarrow> bool completion \<times> fsnode option" where
  "nodePathExists folder p None = (Resolved False, None)"
| "nodePathExists folder p (Some File) = (Resolved (p = folder), Some File)"
| "nodePathExists folder p (Some (Dir es)) =
     (Resolved (p = folder \<or> map_of (entryPaths folder es) p \<noteq> None), Some (Dir es))"

fun nodeReaddir :: "string \<Rightarrow> string \<Rightarrow> fsnode option \<Rightarrow> string list completion \<times> fsnode option" where
  "nodeReaddir folder p None = (Rejected (fsError ''ENOENT''), None)"
| "nodeReaddir folder p (Some File) = (Rejected (fsError ''ENOTDIR''), Some File)"
| "nodeReaddir folder p (Some (Dir es)) =
     (if p = folder then (Resolved (map fst es), Some (Dir es))
      else (case map_of (entryPaths folder es) p of
              None \<Rightarrow> (Rejected (fsError ''ENOENT''), Some (Dir es))
            | Some File \<Rightarrow> (Rejected (fsError ''ENOTDIR''), Some (Dir es))
            | Some (Dir cs) \<Rightarrow> (Resolved (map fst cs), Some (Dir es))))"

fun rmdirEntry :: "string \<Rightarrow> string \<Rightarrow> (string \<times> fsnode) list \<Rightarrow> jsval + (string \<times> fsnode) list" where
  "rmdirEntry folder p [] = Inl (fsError ''ENOENT'')"
| "rmdirEntry folder p ((n, k) # es) =
     (if p = folder @ ''/'' @ n then
        (case k of
           File \<Rightarrow> Inl (fsError ''ENOTDIR'')
         | Dir [] \<Rightarrow> Inr es
         | Dir (c # cs) \<Rightarrow> Inl (fsError ''ENOTEMPTY''))
      else (case rmdirEntry folder p es of
              Inl err \<Rightarrow> Inl err
            | Inr es' \<Rightarrow> Inr ((n, k) # es')))"

fun nodeRmdir :: "string \<Rightarrow> string \<Rightarrow> fsnode option \<Rightarrow> unit completion \<times> fsnode option" where
  "nodeRmdir folder p None = (Rejected (fsError ''ENOENT''), None)"
| "nodeRmdir folder p (Some File) = (Rejected (fsError ''ENOTDIR''), Some File)"
| "nodeRmdir folder p (Some (Dir es)) =
     (if p = folder then
        (if es = [] then (Resolved (), None)
         else (Rejected (fsError ''ENOTEMPTY''), Some (Dir es)))
      else (case rmdirEntry folder p es of
              Inl err \<Rightarrow> (Rejected err, Some (Dir es))
            | Inr es' \<Rightarrow> (Resolved (), Some (Dir es'))))"

definition nodeFs :: "string \<Rightarrow> (fsnode option) fsExtra" where
  "nodeFs folder =
     \<lparr>pathExists = nodePathExists folder, readdir = nodeReaddir folder, rmdir = nodeRmdir folder\<rparr>"

text \<open>
  Concrete collaborators for the runs below: a world that counts the calls of the
  primitive, a \<^verbatim>\<open>lock\<close> and an \<^verbatim>\<open>unlock\<close> that reject every call with the given
  error (\<open>rejecting\<close>) or a \<^verbatim>\<open>lock\<close> that is busy at the first call and free
  afterwards (\<open>busyOnce\<close>), the identity for the digest.
\<close>

definition rejecting :: "jsval \<Rightarrow> nat externals" where
  "rejecting err =
     \<lparr>lock = (\<lambda>p opt w. (Rejected err, Suc w)),
      unlock = (\<lambda>p opt w. (Rejected err, Suc w)),
      md5hex = (\<lambda>s. s),
      joinFilePath = (\<lambda>a b. a @ ''/'' @ b),
      createErrorMessage = messageOf,
      random = (\<lambda>i. 0)\<rparr>"

definition busyOnce :: "nat externals" where
  "busyOnce =
     \<lparr>lock = (\<lambda>p opt w.
        if w = 0 then (Rejected (codedError ''ELOCKED'' ''Lock file is already being held''), Suc w)
        else (Resolved (JFun ''release''), Suc w)),
      unlock = (\<lambda>p opt w. (Resolved JUndefined, Suc w)),
      md5hex = (\<lambda>s. s),
      joinFilePath = (\<lambda>a b. a @ ''/'' @ b),
      createErrorMessage = messageOf,
      random = (\<lambda>i. 0)\<rparr>"

definition exampleLocker :: "int \<Rightarrow> FileSystemResourceLocker" where
  "exampleLocker k =
     \<lparr>attemptSettings = \<lparr>retryCount = k, retryDelay = 50, retryJitter = 30\<rparr>,
      lockFolder = ''/data/.internal/locks''\<rparr>"

section \<open>Properties of the jittered timeout\<close>




lemma roundHalfEven_of_int [simp]: "roundHalfEven (of_int m) = m"
  by (simp add: roundHalfEven_def)


lemma two_powr_int:
  "(2::real) powr (real_of_int e) = 2 powi e"
  "(2::real) powr (real_of_int e + 1) = 2 powi (e + 1)"
proof -
  show "(2::real) powr (real_of_int e) = 2 powi e"
    by (simp add: powr_real_of_int')
  have "(2::real) powr (real_of_int (e + 1)) = 2 powi (e + 1)"
    by (rule powr_real_of_int') simp_all
  then show "(2::real) powr (real_of_int e + 1) = 2 powi (e + 1)"
    by simp
qed


lemma floor_log2_eq:
  assumes "2 powi e \<le> x" "x < 2 powi (e + 1)"
  shows "\<lfloor>log 2 x\<rfloor> = e"
proof -
  have "0 < (2::real) powi e" by simp
  with assms have x: "0 < x" by linarith
  have "2 powr (of_int e) \<le> x \<and> x < 2 powr (of_int e + 1)"
    using assms by (simp only: two_powr_int)
  then show ?thesis
    using floor_log_eq_powr_iff[of x 2 e] x by simp
qed



lemma binade_eq:
  assumes "2 powi e \<le> x" "x < 2 powi (e + 1)" "- 1022 \<le> e"
  shows "binade x = e"
proof -
  have "0 < (2::real) powi e" by simp
  with assms have x: "0 < x" by linarith
  then show ?thesis
    using floor_log2_eq[OF assms(1,2)] assms(3) by (simp add: binade_def)
qed







lemma round64_unfold:
  assumes "x \<noteq> 0" "g = 2 powi (binade x - 52)"
  shows "round64 x = g * of_int (roundHalfEven (x / g))"
  using assms by (simp add: round64_def)








text \<open>
  A product that rounding lifts over an integer: the exact product of this draw
  and 100 lies below 68, the binary64 product is 68.
\<close>

lemma round64_example:
  "round64 (6124895493223874 / 2 ^ 53 * 100) = 68"
  and "\<lfloor>(6124895493223874 / 2 ^ 53 * 100 :: real)\<rfloor> = 67"
proof -
  define x :: real where "x = 6124895493223874 / 2 ^ 53 * 100"
  define g :: real where "g = 1 / 2 ^ 46"
  have x0: "x \<noteq> 0" by (simp add: x_def)
  have b: "binade x = 6" by (rule binade_eq) (simp_all add: x_def)
  have g: "g = 2 powi (binade x - 52)" by (simp add: b g_def power_int_minus_divide)
  have q: "x / g = 4785074604081151 + 9 / 16" by (simp add: x_def g_def)
  have f: "\<lfloor>(4785074604081151 + 9 / 16 :: real)\<rfloor> = 4785074604081151" by linarith
  have "roundHalfEven (x / g) = 4785074604081152"
    unfolding q by (simp only: roundHalfEven_def f) simp
  then have "round64 x = g * of_int 4785074604081152"
    by (simp only: round64_unfold[OF x0 g])
  then have "round64 x = 68" by (simp add: g_def)
  then show "round64 (6124895493223874 / 2 ^ 53 * 100) = 68" by (simp only: x_def)
  show "\<lfloor>(6124895493223874 / 2 ^ 53 * 100 :: real)\<rfloor> = 67" by (simp add: floor_eq_iff)
qed








text \<open>
  C10. For every delay \<open>d\<close> and jitter \<open>j\<close>, negative delays included, and every
  draw, the duration handed to the timer is \<open>max 0 (d + U)\<close>, where \<open>U\<close> is the
  jitter the function computed, and is therefore never negative.
\<close>

theorem setJitterTimeout_nonneg:
  "setJitterTimeout d j rnd = max 0 (d + calcTime_jitter j rnd)
   \<and> 0 \<le> setJitterTimeout d j rnd"
  by (simp add: setJitterTimeout_def calcTime_def)




section \<open>Properties of the retry engine\<close>

lemma retryLoop_all_retryable:
  assumes A: "\<forall>w. \<exists>st w'. fn w = (Resolved st, w') \<and> shouldRetry st"
  shows "shouldRetry st0 \<Longrightarrow> k = nat (m - t + 1) \<Longrightarrow>
    \<exists>zs' w'. retryLoop fn (Some m) d j rnd t st0 n zs w =
        Some \<lparr>outcome = Rejected (maxTriesError (Some m)), calls = n + k, slept = zs', world = w'\<rparr>
      \<and> length zs' = length zs + k"
proof (induction k arbitrary: t st0 n zs w)
  case 0
  then have "t > m" by simp
  with 0 show ?case
    by (subst retryLoop.simps) simp
next
  case (Suc k)
  then have le: "t \<le> m" by simp
  from A obtain st w1 where f: "fn w = (Resolved st, w1)" and r: "shouldRetry st" by blast
  have k: "k = nat (m - (t + 1) + 1)" using Suc.prems(2) by simp
  from Suc.IH[OF r k, of "Suc n" "zs @ [setJitterTimeout d j (rnd (length zs))]" w1]
  obtain zs' w' where
    "retryLoop fn (Some m) d j rnd (t + 1) st (Suc n) (zs @ [setJitterTimeout d j (rnd (length zs))]) w1 =
        Some \<lparr>outcome = Rejected (maxTriesError (Some m)), calls = Suc n + k, slept = zs', world = w'\<rparr>"
    "length zs' = length (zs @ [setJitterTimeout d j (rnd (length zs))]) + k"
    by blast
  then show ?case
    using Suc.prems(1) le f r by (subst retryLoop.simps) simp
qed

lemma retryLoop_stop_first:
  assumes "fn w = (Resolved st, w')" "\<not> shouldRetry st" "withinMaxTries t mt" "shouldRetry st0"
  shows "retryLoop fn mt d j rnd t st0 n zs w =
     Some \<lparr>outcome = (if truthy (error st) then Rejected (error st)
                       else if truthy (response st) then Resolved (response st)
                       else Resolved JUndefined),
           calls = Suc n, slept = zs, world = w'\<rparr>"
proof -
  have ex: "\<not> exceedsMaxTries t mt" using assms(3) by (cases mt) auto
  have fall: "retryLoop fn mt d j rnd t st (Suc n) zs w' =
     Some \<lparr>outcome = Resolved JUndefined, calls = Suc n, slept = zs, world = w'\<rparr>"
    using assms(2) ex by (subst retryLoop.simps) simp
  show ?thesis
    using assms fall by (subst retryLoop.simps) simp
qed

lemma retryLoop_slept_mono:
  assumes "retryLoop fn mt d j rnd t st n zs w = Some r"
  shows "length zs \<le> length (slept r) \<and> n \<le> calls r"
proof (rule retryLoop.raw_induct[where P = "\<lambda>fn mt d j rnd t st n zs w r.
          length zs \<le> length (slept r) \<and> n \<le> calls r", OF _ assms], goal_cases)
  case (1 f fn maxTries delay jitter rnd tries state n zs w r)
  show ?case
  proof (cases "shouldRetry state \<and> withinMaxTries tries maxTries")
    case False
    with 1(2) show ?thesis by (auto split: if_splits)
  next
    case True
    obtain c w' where f: "fn w = (c, w')" by (cases "fn w")
    show ?thesis
    proof (cases c)
      case (Rejected err)
      with 1(2) True f show ?thesis by auto
    next
      case (Resolved st')
      show ?thesis
      proof (cases "shouldRetry st'")
        case sr: True
        with 1(2) True f Resolved
        have "f fn maxTries delay jitter rnd (tries + 1) st' (Suc n)
                 (zs @ [setJitterTimeout delay jitter (rnd (length zs))]) w' = Some r"
          by simp
        from 1(1)[OF this] show ?thesis by simp
      next
        case nr: False
        show ?thesis
        proof (cases "truthy (error st') \<or> truthy (response st')")
          case True
          with 1(2) \<open>shouldRetry state \<and> withinMaxTries tries maxTries\<close> f Resolved nr
          show ?thesis by (auto split: if_splits)
        next
          case False
          with 1(2) \<open>shouldRetry state \<and> withinMaxTries tries maxTries\<close> f Resolved nr
          have "f fn maxTries delay jitter rnd tries st' (Suc n) zs w' = Some r"
            by simp
          from 1(1)[OF this] show ?thesis by simp
        qed
      qed
    qed
  qed
qed

lemma retryLoop_retry_first:
  assumes "fn w = (Resolved st, w')" "shouldRetry st" "withinMaxTries t mt" "shouldRetry st0"
    and "retryLoop fn mt d j rnd t st0 n zs w = Some r"
  shows "length zs < length (slept r)"
proof -
  have "retryLoop fn mt d j rnd t st0 n zs w =
        retryLoop fn mt d j rnd (t + 1) st (Suc n) (zs @ [setJitterTimeout d j (rnd (length zs))]) w'"
    using assms(1-4) by (subst retryLoop.simps) simp
  with assms(5) have "length (zs @ [setJitterTimeout d j (rnd (length zs))]) \<le> length (slept r)"
    using retryLoop_slept_mono by metis
  then show ?thesis by simp
qed

lemma withinMaxTries_first:
  "- 1 \<le> retryCount settings \<Longrightarrow> withinMaxTries 1 (maxTriesOf settings)"
  by (simp add: maxTriesOf_def)

lemma isCodedError_truthy: "isCodedError e \<Longrightarrow> truthy e"
  by (cases e) simp_all


lemma setJitterTimeout_example: "setJitterTimeout 50 30 0 = 51"
  by (simp add: setJitterTimeout_def calcTime_def calcTime_jitter_def round64_def)

lemma retryFunctionUntil_stop_first:
  assumes "fn w = (Resolved st, w')" "\<not> shouldRetry st" "- 1 \<le> retryCount settings"
  shows "retryFunctionUntil fn settings rnd w =
     Some \<lparr>outcome = (if truthy (error st) then Rejected (error st)
                       else if truthy (response st) then Resolved (response st)
                       else Resolved JUndefined),
           calls = 1, slept = [], world = w'\<rparr>"
proof -
  have "withinMaxTries 1 (maxTriesOf settings)"
    by (rule withinMaxTries_first[OF assms(3)])
  then show ?thesis
    unfolding retryFunctionUntil_def
    using assms(1,2)
    by (simp add: retryLoop_stop_first[where st = st and w' = w'])
qed

lemma retryFunctionUntil_all_retryable:
  assumes "0 \<le> k" "retryCount settings = k"
    and "\<forall>w. \<exists>st w'. fn w = (Resolved st, w') \<and> shouldRetry st"
  shows "\<exists>zs w'. retryFunctionUntil fn settings rnd w =
        Some \<lparr>outcome = Rejected (maxTriesError (Some (k + 1))), calls = nat (k + 1),
              slept = zs, world = w'\<rparr>
      \<and> length zs = nat (k + 1)"
proof -
  have mt: "maxTriesOf settings = Some (k + 1)"
    using assms(1,2) by (simp add: maxTriesOf_def)
  have "\<exists>zs' w'. retryLoop fn (Some (k + 1)) (retryDelay settings) (retryJitter settings) rnd 1
             \<lparr>shouldRetry = True, response = JUndefined, error = JUndefined\<rparr> 0 [] w =
        Some \<lparr>outcome = Rejected (maxTriesError (Some (k + 1))), calls = 0 + nat (k + 1),
              slept = zs', world = w'\<rparr>
      \<and> length zs' = length ([]::real list) + nat (k + 1)"
    by (rule retryLoop_all_retryable[OF assms(3)]) simp_all
  then show ?thesis
    unfolding retryFunctionUntil_def mt by simp
qed

lemma retryLoop_retry_step:
  assumes "fn w = (Resolved st, w')" "shouldRetry st" "withinMaxTries t mt" "shouldRetry st0"
  shows "retryLoop fn mt d j rnd t st0 n zs w =
         retryLoop fn mt d j rnd (t + 1) st (Suc n)
           (zs @ [setJitterTimeout d j (rnd (length zs))]) w'"
  using assms by (subst retryLoop.simps) simp

lemma retryLoop_exceeded:
  assumes "exceedsMaxTries t mt"
  shows "retryLoop fn mt d j rnd t st0 n zs w =
         Some \<lparr>outcome = Rejected (maxTriesError mt), calls = n, slept = zs, world = w\<rparr>"
proof -
  have "\<not> withinMaxTries t mt" using assms by (cases mt) auto
  then show ?thesis using assms by (subst retryLoop.simps) simp
qed

lemma retryLoop_call_made:
  assumes "shouldRetry st0" "withinMaxTries t mt"
    and "retryLoop fn mt d j rnd t st0 n zs w = Some r"
  shows "Suc n \<le> calls r"
proof -
  obtain c w' where f: "fn w = (c, w')" by (cases "fn w")
  show ?thesis
  proof (cases c)
    case (Rejected err)
    with assms f have "r = \<lparr>outcome = Rejected err, calls = Suc n, slept = zs, world = w'\<rparr>"
      by (subst (asm) retryLoop.simps) simp
    then show ?thesis by simp
  next
    case (Resolved st)
    show ?thesis
    proof (cases "shouldRetry st")
      case True
      with assms f Resolved
      have "retryLoop fn mt d j rnd (t + 1) st (Suc n)
              (zs @ [setJitterTimeout d j (rnd (length zs))]) w' = Some r"
        by (subst (asm) retryLoop.simps) simp
      from retryLoop_slept_mono[OF this] show ?thesis by simp
    next
      case False
      with assms(1,2) f Resolved
      have "retryLoop fn mt d j rnd t st0 n zs w =
        Some \<lparr>outcome = (if truthy (error st) then Rejected (error st)
                       else if truthy (response st) then Resolved (response st)
                       else Resolved JUndefined),
           calls = Suc n, slept = zs, world = w'\<rparr>"
        by (intro retryLoop_stop_first) simp_all
      with assms(3) show ?thesis by auto
    qed
  qed
qed

lemma retryLoop_retryable_run:
  assumes "\<forall>i<k. \<exists>st. fst (fn (((\<lambda>v. snd (fn v)) ^^ i) w)) = Resolved st \<and> shouldRetry st"
    and "shouldRetry st0" and "k = nat (m - t + 1)"
  shows "retryLoop fn (Some m) d j rnd t st0 n zs w =
        Some \<lparr>outcome = Rejected (maxTriesError (Some m)), calls = n + k,
              slept = zs @ map (\<lambda>i. setJitterTimeout d j (rnd i)) [length zs ..< length zs + k],
              world = ((\<lambda>v. snd (fn v)) ^^ k) w\<rparr>"
  using assms
proof (induction k arbitrary: t st0 n zs w)
  case 0
  then have "exceedsMaxTries t (Some m)" by simp
  then show ?case by (simp add: retryLoop_exceeded)
next
  case (Suc k)
  let ?step = "\<lambda>v. snd (fn v)"
  from Suc.prems(3) have le: "withinMaxTries t (Some m)" by simp
  from Suc.prems(1) have "\<exists>st. fst (fn ((?step ^^ 0) w)) = Resolved st \<and> shouldRetry st"
    by blast
  then obtain st where st: "fst (fn w) = Resolved st" "shouldRetry st" by auto
  then have f: "fn w = (Resolved st, ?step w)" by (metis prod.collapse)
  have h: "\<forall>i<k. \<exists>st. fst (fn ((?step ^^ i) (?step w))) = Resolved st \<and> shouldRetry st"
  proof (intro allI impI)
    fix i assume "i < k"
    then have "Suc i < Suc k" by simp
    with Suc.prems(1) have "\<exists>st. fst (fn ((?step ^^ Suc i) w)) = Resolved st \<and> shouldRetry st"
      by blast
    then show "\<exists>st. fst (fn ((?step ^^ i) (?step w))) = Resolved st \<and> shouldRetry st"
      by (simp only: funpow_Suc_right o_apply)
  qed
  have k: "k = nat (m - (t + 1) + 1)" using Suc.prems(3) by simp
  have "retryLoop fn (Some m) d j rnd t st0 n zs w =
        retryLoop fn (Some m) d j rnd (t + 1) st (Suc n)
           (zs @ [setJitterTimeout d j (rnd (length zs))]) (?step w)"
    using f st(2) le Suc.prems(2)
    by (intro retryLoop_retry_step[where fn = fn and w = w and st = st]) simp_all
  also have "\<dots> = Some \<lparr>outcome = Rejected (maxTriesError (Some m)), calls = Suc n + k,
              slept = (zs @ [setJitterTimeout d j (rnd (length zs))])
                 @ map (\<lambda>i. setJitterTimeout d j (rnd i))
                     [length (zs @ [setJitterTimeout d j (rnd (length zs))])
                        ..< length (zs @ [setJitterTimeout d j (rnd (length zs))]) + k],
              world = (?step ^^ k) (?step w)\<rparr>"
    by (rule Suc.IH[OF h st(2) k])
  also have "\<dots> = Some \<lparr>outcome = Rejected (maxTriesError (Some m)), calls = n + Suc k,
              slept = zs @ map (\<lambda>i. setJitterTimeout d j (rnd i)) [length zs ..< length zs + Suc k],
              world = (?step ^^ Suc k) w\<rparr>"
  proof -
    have l: "[length zs ..< length zs + Suc k] = length zs # [Suc (length zs) ..< Suc (length zs) + k]"
      by (simp add: upt_conv_Cons)
    have sl: "(zs @ [setJitterTimeout d j (rnd (length zs))])
                 @ map (\<lambda>i. setJitterTimeout d j (rnd i))
                     [length (zs @ [setJitterTimeout d j (rnd (length zs))])
                        ..< length (zs @ [setJitterTimeout d j (rnd (length zs))]) + k]
              = zs @ map (\<lambda>i. setJitterTimeout d j (rnd i)) [length zs ..< length zs + Suc k]"
      unfolding l by simp
    have fp: "(?step ^^ k) (?step w) = (?step ^^ Suc k) w"
      by (simp only: funpow_Suc_right o_apply)
    have c: "Suc n + k = n + Suc k" by simp
    show ?thesis by (simp only: sl fp c)
  qed
  finally show ?case .
qed

text \<open>
  C3. For every retry count \<open>k \<ge> 0\<close> and every attempt that yields a retryable
  outcome at each of its first \<open>k + 1\<close> invocations (and does not reject itself),
  \<^verbatim>\<open>retryFunctionUntil\<close> settles: it invokes the attempt exactly \<open>k + 1\<close> times,
  each in the world the invocation before left, so that the world at the end is
  the one after \<open>k + 1\<close> invocations; it sleeps after each; and it then rejects
  with the error that the set maximum of \<open>k + 1\<close> tries was exceeded. With
  \<open>k = 2\<close> that is 3 attempts.
\<close>

theorem retryFunctionUntil_budget_exhausted:
  assumes "0 \<le> k" and "retryCount settings = k"
    and "\<forall>i < nat k + 1. \<exists>st. fst (fn (((\<lambda>v. snd (fn v)) ^^ i) w)) = Resolved st \<and> shouldRetry st"
  shows "retryFunctionUntil fn settings rnd w =
        Some \<lparr>outcome = Rejected (maxTriesError (Some (k + 1))), calls = nat k + 1,
              slept = map (\<lambda>i. setJitterTimeout (retryDelay settings) (retryJitter settings) (rnd i))
                        [0 ..< nat k + 1],
              world = ((\<lambda>v. snd (fn v)) ^^ (nat k + 1)) w\<rparr>"
proof -
  have mt: "maxTriesOf settings = Some (k + 1)"
    using assms(1,2) by (simp add: maxTriesOf_def)
  have n: "nat k + 1 = nat (k + 1 - 1 + 1)" using assms(1) by simp
  have "retryLoop fn (Some (k + 1)) (retryDelay settings) (retryJitter settings) rnd 1
          \<lparr>shouldRetry = True, response = JUndefined, error = JUndefined\<rparr> 0 [] w =
        Some \<lparr>outcome = Rejected (maxTriesError (Some (k + 1))), calls = 0 + (nat k + 1),
              slept = [] @ map (\<lambda>i. setJitterTimeout (retryDelay settings) (retryJitter settings) (rnd i))
                        [length ([]::real list) ..< length ([]::real list) + (nat k + 1)],
              world = ((\<lambda>v. snd (fn v)) ^^ (nat k + 1)) w\<rparr>"
    by (rule retryLoop_retryable_run[OF assms(3) _ n]) simp
  then show ?thesis
    unfolding retryFunctionUntil_def mt by simp
qed

theorem retryFunctionUntil_budget_exhausted_witness:
  "retryFunctionUntil
       (\<lambda>w::nat. (Resolved \<lparr>shouldRetry = True, response = JUndefined, error = JUndefined\<rparr>, Suc w))
       \<lparr>retryCount = 2, retryDelay = 50, retryJitter = 30\<rparr> (\<lambda>i. 0) 0 =
     Some \<lparr>outcome = Rejected (InternalServerError
             ''The operation did not succeed after the set maximum of tries (3).''),
           calls = 3, slept = [51, 51, 51], world = 3\<rparr>"
proof -
  have m: "maxTriesError (Some (2 + 1)) = InternalServerError
             ''The operation did not succeed after the set maximum of tries (3).''"
    by (simp add: maxTriesError_def numberToString_def)
  have u: "[0..<nat 2 + 1] = [0, 1, 2]" by (simp add: upt_rec)
  have w: "((\<lambda>v. snd (Resolved \<lparr>shouldRetry = True, response = JUndefined, error = JUndefined\<rparr>, Suc v))
             ^^ (nat 2 + 1)) (0::nat) = 3"
    by (simp add: eval_nat_numeral)
  show ?thesis
    using retryFunctionUntil_budget_exhausted[of 2
      "\<lparr>retryCount = 2, retryDelay = 50, retryJitter = 30\<rparr>"
      "\<lambda>w::nat. (Resolved \<lparr>shouldRetry = True, response = JUndefined, error = JUndefined\<rparr>, Suc w)"
      0 "\<lambda>i. 0"]
    unfolding m u w by (simp add: setJitterTimeout_example)
qed


text \<open>
  C2. The engine returns the successful value only when it is truthy
  (\<^verbatim>\<open>else if (state.response) return state.response\<close>). A success that carries
  \<^verbatim>\<open>false\<close>, \<^verbatim>\<open>0\<close> or the empty string ends the loop after that one invocation
  as well, but the promise resolves with \<^verbatim>\<open>undefined\<close>, not with the value. The
  fourth run shows a truthy value coming back as it is; in the fifth the first
  invocation is retryable and the second succeeds with \<^verbatim>\<open>false\<close>.
\<close>

theorem retryFunctionUntil_falsy_success:
  "retryFunctionUntil (toRetryOnBoolean True (\<lambda>w::unit. (Resolved (JBool False), w)))
       \<lparr>retryCount = 0, retryDelay = 0, retryJitter = 0\<rparr> (\<lambda>i. 0) () =
     Some \<lparr>outcome = Resolved JUndefined, calls = 1, slept = [], world = ()\<rparr>
   \<and> retryFunctionUntil
       (\<lambda>w::unit. (Resolved \<lparr>shouldRetry = False, response = JNum 0, error = JUndefined\<rparr>, w))
       \<lparr>retryCount = 0, retryDelay = 0, retryJitter = 0\<rparr> (\<lambda>i. 0) () =
     Some \<lparr>outcome = Resolved JUndefined, calls = 1, slept = [], world = ()\<rparr>
   \<and> retryFunctionUntil
       (\<lambda>w::unit. (Resolved \<lparr>shouldRetry = False, response = JStr '''', error = JUndefined\<rparr>, w))
       \<lparr>retryCount = 0, retryDelay = 0, retryJitter = 0\<rparr> (\<lambda>i. 0) () =
     Some \<lparr>outcome = Resolved JUndefined, calls = 1, slept = [], world = ()\<rparr>
   \<and> retryFunctionUntil
       (\<lambda>w::unit. (Resolved \<lparr>shouldRetry = False, response = JBool True, error = JUndefined\<rparr>, w))
       \<lparr>retryCount = 0, retryDelay = 0, retryJitter = 0\<rparr> (\<lambda>i. 0) () =
     Some \<lparr>outcome = Resolved (JBool True), calls = 1, slept = [], world = ()\<rparr>
   \<and> retryFunctionUntil
       (\<lambda>w::nat. (Resolved \<lparr>shouldRetry = (w = 0), response = JBool False, error = JUndefined\<rparr>,
                   Suc w))
       \<lparr>retryCount = 2, retryDelay = 50, retryJitter = 30\<rparr> (\<lambda>i. 0) 0 =
     Some \<lparr>outcome = Resolved JUndefined, calls = 2, slept = [51], world = 2\<rparr>"
  by (simp add: retryFunctionUntil_def maxTriesOf_def retryLoop.simps setJitterTimeout_example
      toRetryOnBoolean_def)


lemma toRetryOnBoolean_resolved:
  "fn w = (Resolved v, w') \<Longrightarrow>
   toRetryOnBoolean s fn w =
     (Resolved \<lparr>shouldRetry = (v = JBool s), response = v, error = JUndefined\<rparr>, w')"
  by (simp add: toRetryOnBoolean_def)

lemma retry_toRetryOnError_stop:
  assumes "fn w = (Rejected e, w')" "p e" "truthy e" "- 1 \<le> retryCount settings"
  shows "retryFunctionUntil (toRetryOnError p fn) settings rnd w =
     Some \<lparr>outcome = Rejected e, calls = 1, slept = [], world = w'\<rparr>"
proof -
  have "toRetryOnError p fn w =
     (Resolved \<lparr>shouldRetry = \<not> p e, response = JUndefined, error = e\<rparr>, w')"
    using assms(1) by (simp add: toRetryOnError_def)
  then show ?thesis
    using assms(2-4)
    by (simp add: retryFunctionUntil_stop_first[where
          st = "\<lparr>shouldRetry = \<not> p e, response = JUndefined, error = e\<rparr>" and w' = w'])
qed

text \<open>
  C6. With stop predicate \<open>p\<close>, a raw call rejected with \<open>e\<close> makes
  \<^verbatim>\<open>toRetryOnError\<close> yield the outcome that carries \<open>e\<close> and stops
  (\<^verbatim>\<open>shouldRetry\<close> false, the terminal outcome) exactly when \<open>p e\<close> holds, the
  retryable one otherwise; a raw call resolved with \<open>v\<close> yields the success
  outcome carrying \<open>v\<close>. An attempt that always rejects with a coded error that
  \<open>p\<close> matches makes the engine reject with that error after the first call,
  without sleeping or retrying.
\<close>

theorem toRetryOnError_outcomes:
  "(fn w = (Rejected e, w') \<longrightarrow>
      toRetryOnError p fn w =
        (Resolved \<lparr>shouldRetry = \<not> p e, response = JUndefined, error = e\<rparr>, w'))
   \<and> (fn w = (Resolved v, w') \<longrightarrow>
      toRetryOnError p fn w =
        (Resolved \<lparr>shouldRetry = False, response = v, error = JUndefined\<rparr>, w'))
   \<and> ((\<forall>w. \<exists>w'. fn w = (Rejected e, w')) \<and> isCodedError e \<and> p e
        \<and> - 1 \<le> retryCount settings \<longrightarrow>
      (\<exists>w'. retryFunctionUntil (toRetryOnError p fn) settings rnd w =
         Some \<lparr>outcome = Rejected e, calls = 1, slept = [], world = w'\<rparr>))"
proof (intro conjI impI)
  assume "fn w = (Rejected e, w')"
  then show "toRetryOnError p fn w =
        (Resolved \<lparr>shouldRetry = \<not> p e, response = JUndefined, error = e\<rparr>, w')"
    by (simp add: toRetryOnError_def)
next
  assume "fn w = (Resolved v, w')"
  then show "toRetryOnError p fn w =
        (Resolved \<lparr>shouldRetry = False, response = v, error = JUndefined\<rparr>, w')"
    by (simp add: toRetryOnError_def)
next
  assume a: "(\<forall>w. \<exists>w'. fn w = (Rejected e, w')) \<and> isCodedError e \<and> p e
        \<and> - 1 \<le> retryCount settings"
  then obtain w1 where f: "fn w = (Rejected e, w1)" by blast
  from a have t: "truthy e" by (simp add: isCodedError_truthy)
  from a have "retryFunctionUntil (toRetryOnError p fn) settings rnd w =
         Some \<lparr>outcome = Rejected e, calls = 1, slept = [], world = w1\<rparr>"
    using f t by (simp add: retry_toRetryOnError_stop[where e = e and w' = w1])
  then show "\<exists>w'. retryFunctionUntil (toRetryOnError p fn) settings rnd w =
         Some \<lparr>outcome = Rejected e, calls = 1, slept = [], world = w'\<rparr>"
    by blast
qed

theorem toRetryOnError_outcomes_witness:
  "toRetryOnError stopOnError (\<lambda>w::nat. (Rejected (codedError ''ENOTACQUIRED'' ''not held''), Suc w)) 0 =
     (Resolved \<lparr>shouldRetry = False, response = JUndefined,
                error = codedError ''ENOTACQUIRED'' ''not held''\<rparr>, 1)
   \<and> toRetryOnError stopOnError (\<lambda>w::nat. (Rejected (codedError ''EIO'' ''i/o''), Suc w)) 0 =
     (Resolved \<lparr>shouldRetry = True, response = JUndefined, error = codedError ''EIO'' ''i/o''\<rparr>, 1)
   \<and> toRetryOnError stopOnError (\<lambda>w::nat. (Resolved (JFun ''release''), Suc w)) 0 =
     (Resolved \<lparr>shouldRetry = False, response = JFun ''release'', error = JUndefined\<rparr>, 1)
   \<and> (\<exists>w'. retryFunctionUntil
         (toRetryOnError stopOnError (\<lambda>w::nat. (Rejected (codedError ''ENOTACQUIRED'' ''not held''), Suc w)))
         \<lparr>retryCount = 2, retryDelay = 50, retryJitter = 30\<rparr> (\<lambda>i. 0) 0 =
       Some \<lparr>outcome = Rejected (codedError ''ENOTACQUIRED'' ''not held''), calls = 1, slept = [],
             world = w'\<rparr>)"
proof -
  let ?e = "codedError ''ENOTACQUIRED'' ''not held''"
  have s: "stopOnError ?e" "isCodedError ?e" "\<not> stopOnError (codedError ''EIO'' ''i/o'')"
    by (simp_all add: stopOnError_def codedError_def)
  show ?thesis
    using toRetryOnError_outcomes[of "\<lambda>w::nat. (Rejected ?e, Suc w)" 0 ?e 1 stopOnError
            JUndefined "\<lparr>retryCount = 2, retryDelay = 50, retryJitter = 30\<rparr>" "\<lambda>i. 0"]
      toRetryOnError_outcomes[of "\<lambda>w::nat. (Rejected (codedError ''EIO'' ''i/o''), Suc w)" 0
            "codedError ''EIO'' ''i/o''" 1 stopOnError
            JUndefined "\<lparr>retryCount = 2, retryDelay = 50, retryJitter = 30\<rparr>" "\<lambda>i. 0"]
      toRetryOnError_outcomes[of "\<lambda>w::nat. (Resolved (JFun ''release''), Suc w)" 0
            JUndefined 1 stopOnError
            "JFun ''release''" "\<lparr>retryCount = 2, retryDelay = 50, retryJitter = 30\<rparr>" "\<lambda>i. 0"]
      s
    by simp
qed

text \<open>
  C7. With sentinel \<open>s\<close>, a raw call resolved with the boolean \<open>s\<close> makes
  \<^verbatim>\<open>toRetryOnBoolean\<close> yield a retryable outcome; resolved with any other value
  \<open>v\<close> it yields the success outcome carrying \<open>v\<close>; rejected with \<open>e\<close> it yields,
  whatever the sentinel, the outcome that carries \<open>e\<close> and stops, and the engine
  then settles after that one call, without sleeping or retrying (it rejects with
  \<open>e\<close>, provided \<open>e\<close> is truthy).
\<close>

theorem toRetryOnBoolean_outcomes:
  "(fn w = (Resolved v, w') \<and> v = JBool s \<longrightarrow>
      toRetryOnBoolean s fn w =
        (Resolved \<lparr>shouldRetry = True, response = v, error = JUndefined\<rparr>, w'))
   \<and> (fn w = (Resolved v, w') \<and> v \<noteq> JBool s \<longrightarrow>
      toRetryOnBoolean s fn w =
        (Resolved \<lparr>shouldRetry = False, response = v, error = JUndefined\<rparr>, w'))
   \<and> (fn w = (Rejected e, w') \<longrightarrow>
      toRetryOnBoolean s fn w =
        (Resolved \<lparr>shouldRetry = False, response = JUndefined, error = e\<rparr>, w')
      \<and> (- 1 \<le> retryCount settings \<longrightarrow>
           retryFunctionUntil (toRetryOnBoolean s fn) settings rnd w =
             Some \<lparr>outcome = (if truthy e then Rejected e else Resolved JUndefined),
                   calls = 1, slept = [], world = w'\<rparr>))"
proof (intro conjI impI)
  assume "fn w = (Resolved v, w') \<and> v = JBool s"
  then show "toRetryOnBoolean s fn w =
        (Resolved \<lparr>shouldRetry = True, response = v, error = JUndefined\<rparr>, w')"
    by (simp add: toRetryOnBoolean_resolved)
next
  assume "fn w = (Resolved v, w') \<and> v \<noteq> JBool s"
  then show "toRetryOnBoolean s fn w =
        (Resolved \<lparr>shouldRetry = False, response = v, error = JUndefined\<rparr>, w')"
    by (simp add: toRetryOnBoolean_resolved)
next
  assume f: "fn w = (Rejected e, w')"
  then show "toRetryOnBoolean s fn w =
        (Resolved \<lparr>shouldRetry = False, response = JUndefined, error = e\<rparr>, w')"
    by (simp add: toRetryOnBoolean_def)
  assume "- 1 \<le> retryCount settings"
  then show "retryFunctionUntil (toRetryOnBoolean s fn) settings rnd w =
             Some \<lparr>outcome = (if truthy e then Rejected e else Resolved JUndefined),
                   calls = 1, slept = [], world = w'\<rparr>"
    using f
    by (simp add: toRetryOnBoolean_def retryFunctionUntil_stop_first[where
          st = "\<lparr>shouldRetry = False, response = JUndefined, error = e\<rparr>" and w' = w'])
qed

theorem toRetryOnBoolean_outcomes_witness:
  "toRetryOnBoolean False (\<lambda>w::nat. (Resolved (JBool False), Suc w)) 0 =
     (Resolved \<lparr>shouldRetry = True, response = JBool False, error = JUndefined\<rparr>, 1)
   \<and> toRetryOnBoolean False (\<lambda>w::nat. (Resolved (JBool True), Suc w)) 0 =
     (Resolved \<lparr>shouldRetry = False, response = JBool True, error = JUndefined\<rparr>, 1)
   \<and> retryFunctionUntil (toRetryOnBoolean False (\<lambda>w::nat. (Rejected (JStr ''boom''), Suc w)))
         \<lparr>retryCount = 2, retryDelay = 50, retryJitter = 30\<rparr> (\<lambda>i. 0) 0 =
       Some \<lparr>outcome = Rejected (JStr ''boom''), calls = 1, slept = [], world = 1\<rparr>"
  using toRetryOnBoolean_outcomes[of "\<lambda>w::nat. (Resolved (JBool False), Suc w)" 0 "JBool False" 1 False
          JUndefined "\<lparr>retryCount = 2, retryDelay = 50, retryJitter = 30\<rparr>" "\<lambda>i. 0"]
    toRetryOnBoolean_outcomes[of "\<lambda>w::nat. (Resolved (JBool True), Suc w)" 0 "JBool True" 1 False
          JUndefined "\<lparr>retryCount = 2, retryDelay = 50, retryJitter = 30\<rparr>" "\<lambda>i. 0"]
    toRetryOnBoolean_outcomes[of "\<lambda>w::nat. (Rejected (JStr ''boom''), Suc w)" 0 JUndefined 1 False
          "JStr ''boom''" "\<lparr>retryCount = 2, retryDelay = 50, retryJitter = 30\<rparr>" "\<lambda>i. 0"]
  by simp


section \<open>Properties of the locker\<close>

lemma stopOnError_truthy: "stopOnError e \<Longrightarrow> truthy e"
  by (simp add: stopOnError_def isCodedError_truthy)

lemma retryUntilError_stop:
  assumes "fn w = (Rejected e, w')" "stopOnError e" "- 1 \<le> retryCount (attemptSettings this)"
  shows "retryUntilError X this fn w =
     Some \<lparr>outcome = Rejected e, calls = 1, slept = [], world = w'\<rparr>"
  unfolding retryUntilError_def
  using assms stopOnError_truthy[OF assms(2)]
  by (simp add: retry_toRetryOnError_stop[where e = e and w' = w'])

lemma retryUntilError_retry:
  assumes "fn w = (Rejected e, w')" "\<not> stopOnError e" "- 1 \<le> retryCount (attemptSettings this)"
    and "retryUntilError X this fn w = Some r"
  shows "slept r \<noteq> []"
proof -
  have a: "toRetryOnError stopOnError fn w =
     (Resolved \<lparr>shouldRetry = True, response = JUndefined, error = e\<rparr>, w')"
    using assms(1,2) by (simp add: toRetryOnError_def)
  have "length ([]::real list) < length (slept r)"
    using assms(4) withinMaxTries_first[OF assms(3)] a
    unfolding retryUntilError_def retryFunctionUntil_def
    by (intro retryLoop_retry_first[where fn = "toRetryOnError stopOnError fn" and w = w
          and st = "\<lparr>shouldRetry = True, response = JUndefined, error = e\<rparr>" and w' = w'
          and ?st0.0 = "\<lparr>shouldRetry = True, response = JUndefined, error = JUndefined\<rparr>"
          and t = 1 and mt = "maxTriesOf (attemptSettings this)"
          and d = "retryDelay (attemptSettings this)" and j = "retryJitter (attemptSettings this)"
          and rnd = "random X" and n = 0]) simp_all
  then show ?thesis by auto
qed

lemma retryUntilError_exhausted:
  assumes "0 \<le> k" "retryCount (attemptSettings this) = k"
    and "\<forall>w. \<exists>e w'. fn w = (Rejected e, w') \<and> \<not> stopOnError e"
  shows "\<exists>zs w'. retryUntilError X this fn w =
        Some \<lparr>outcome = Rejected (maxTriesError (Some (k + 1))), calls = nat (k + 1),
              slept = zs, world = w'\<rparr>
      \<and> length zs = nat (k + 1)"
proof -
  have "\<forall>w. \<exists>st w'. toRetryOnError stopOnError fn w = (Resolved st, w') \<and> shouldRetry st"
  proof
    fix w
    from assms(3) obtain e w' where "fn w = (Rejected e, w')" "\<not> stopOnError e" by blast
    then have "toRetryOnError stopOnError fn w =
        (Resolved \<lparr>shouldRetry = True, response = JUndefined, error = e\<rparr>, w')"
      by (simp add: toRetryOnError_def)
    then show "\<exists>st w'. toRetryOnError stopOnError fn w = (Resolved st, w') \<and> shouldRetry st"
      by simp
  qed
  then show ?thesis
    unfolding retryUntilError_def
    by (rule retryFunctionUntil_all_retryable[OF assms(1,2)])
qed

text \<open>
  C8. When the unlock primitive rejects with a coded error whose code is
  \<^verbatim>\<open>ENOTACQUIRED\<close>, the lock is not held, \<^verbatim>\<open>release\<close> fails at once: after that
  single call, without sleeping or retrying, it rejects with the
  \<^verbatim>\<open>InternalServerError\<close> that names the path and wraps the message of that error.
  (The retry count is at least \<open>-1\<close>, as the settings require.)
\<close>

theorem release_not_acquired:
  assumes "- 1 \<le> retryCount (attemptSettings this)"
    and "unlock X (path identifier) (generateOptions X this identifier defaultUnlockOptions) w
           = (Rejected e, w')"
    and "isCodedError e" and "getProp e ''code'' = JStr ''ENOTACQUIRED''"
  shows "release X this identifier w =
     Some \<lparr>outcome = Rejected (InternalServerError
              (''Error trying to release lock for '' @ path identifier @ ''.  ''
                 @ createErrorMessage X e)),
           calls = 1, slept = [], world = w'\<rparr>"
proof -
  have "stopOnError e" using assms(3,4) by (simp add: stopOnError_def)
  from retryUntilError_stop[where X = X and w = w
      and fn = "unlock X (path identifier) (generateOptions X this identifier defaultUnlockOptions)",
      OF assms(2) this assms(1)]
  show ?thesis
    by (simp add: release_def wrapFailure_def)
qed


theorem release_not_acquired_witness:
  "release (rejecting (codedError ''ENOTACQUIRED'' ''Lock is not acquired/owned by you''))
      (exampleLocker 2) \<lparr>path = ''/alice/foo.ttl''\<rparr> 0 =
     Some \<lparr>outcome = Rejected (InternalServerError
              ''Error trying to release lock for /alice/foo.ttl.  Lock is not acquired/owned by you''),
           calls = 1, slept = [], world = 1\<rparr>"
  using release_not_acquired[of "exampleLocker 2"
      "rejecting (codedError ''ENOTACQUIRED'' ''Lock is not acquired/owned by you'')"
      "\<lparr>path = ''/alice/foo.ttl''\<rparr>" 0
      "codedError ''ENOTACQUIRED'' ''Lock is not acquired/owned by you''" 1]
  by (simp add: exampleLocker_def rejecting_def codedError_def)

lemma withinMaxTries_second:
  "retryCount settings = - 1 \<or> 1 \<le> retryCount settings \<Longrightarrow> withinMaxTries 2 (maxTriesOf settings)"
  by (auto simp: maxTriesOf_def)

lemma retryUntilError_second_try:
  assumes "fn w = (Rejected e, w')" "\<not> stopOnError e" "- 1 \<le> retryCount (attemptSettings this)"
  shows "retryUntilError X this fn w =
     retryLoop (toRetryOnError stopOnError fn) (maxTriesOf (attemptSettings this))
       (retryDelay (attemptSettings this)) (retryJitter (attemptSettings this)) (random X) 2
       \<lparr>shouldRetry = True, response = JUndefined, error = e\<rparr> 1
       [setJitterTimeout (retryDelay (attemptSettings this)) (retryJitter (attemptSettings this))
          (random X 0)] w'"
proof -
  have a: "toRetryOnError stopOnError fn w =
     (Resolved \<lparr>shouldRetry = True, response = JUndefined, error = e\<rparr>, w')"
    using assms(1,2) by (simp add: toRetryOnError_def)
  show ?thesis
    unfolding retryUntilError_def retryFunctionUntil_def
    using a withinMaxTries_first[OF assms(3)]
    by (subst retryLoop_retry_step[where fn = "toRetryOnError stopOnError fn" and w = w
          and st = "\<lparr>shouldRetry = True, response = JUndefined, error = e\<rparr>" and w' = w'])
       simp_all
qed

lemma retryUntilError_then_settled:
  assumes "fn w = (Rejected e, w')" "\<not> stopOnError e"
    and "retryCount (attemptSettings this) = - 1 \<or> 1 \<le> retryCount (attemptSettings this)"
    and "toRetryOnError stopOnError fn w' = (Resolved st, w'')" "\<not> shouldRetry st"
  shows "retryUntilError X this fn w =
     Some \<lparr>outcome = (if truthy (error st) then Rejected (error st)
                       else if truthy (response st) then Resolved (response st)
                       else Resolved JUndefined),
           calls = 2,
           slept = [setJitterTimeout (retryDelay (attemptSettings this))
                      (retryJitter (attemptSettings this)) (random X 0)],
           world = w''\<rparr>"
proof -
  have b: "- 1 \<le> retryCount (attemptSettings this)" using assms(3) by auto
  show ?thesis
    unfolding retryUntilError_second_try[where X = X and fn = fn and w = w, OF assms(1,2) b]
    using assms(4,5) withinMaxTries_second[OF assms(3)]
    by (subst retryLoop_stop_first[where fn = "toRetryOnError stopOnError fn" and w = w'
          and st = st and w' = w'']) simp_all
qed

lemma retryUntilError_single_try:
  assumes "fn w = (Rejected e, w')" "\<not> stopOnError e" "retryCount (attemptSettings this) = 0"
  shows "retryUntilError X this fn w =
     Some \<lparr>outcome = Rejected (maxTriesError (Some 1)), calls = 1,
           slept = [setJitterTimeout (retryDelay (attemptSettings this))
                      (retryJitter (attemptSettings this)) (random X 0)],
           world = w'\<rparr>"
proof -
  have b: "- 1 \<le> retryCount (attemptSettings this)" using assms(3) by simp
  have m: "maxTriesOf (attemptSettings this) = Some 1" using assms(3) by (simp add: maxTriesOf_def)
  show ?thesis
    unfolding retryUntilError_second_try[where X = X and fn = fn and w = w, OF assms(1,2) b] m
    by (subst retryLoop_exceeded) simp_all
qed

lemma retryUntilError_two_calls:
  assumes "fn w = (Rejected e, w')" "\<not> stopOnError e"
    and "retryCount (attemptSettings this) = - 1 \<or> 1 \<le> retryCount (attemptSettings this)"
    and "retryUntilError X this fn w = Some r"
  shows "2 \<le> calls r"
proof -
  have b: "- 1 \<le> retryCount (attemptSettings this)" using assms(3) by auto
  from assms(4) have "retryLoop (toRetryOnError stopOnError fn) (maxTriesOf (attemptSettings this))
       (retryDelay (attemptSettings this)) (retryJitter (attemptSettings this)) (random X) 2
       \<lparr>shouldRetry = True, response = JUndefined, error = e\<rparr> 1
       [setJitterTimeout (retryDelay (attemptSettings this)) (retryJitter (attemptSettings this))
          (random X 0)] w' = Some r"
    unfolding retryUntilError_second_try[where X = X and fn = fn and w = w, OF assms(1,2) b] .
  from retryLoop_call_made[OF _ withinMaxTries_second[OF assms(3)] this]
  show ?thesis by simp
qed


text \<open>
  C1, amended. For every error \<open>e\<close> with which the raw lock call rejects, the
  attempt outcome of \<^verbatim>\<open>acquire\<close> carries \<open>e\<close> and is terminal exactly when \<open>e\<close> is a
  coded error whose code is \<^verbatim>\<open>ENOTACQUIRED\<close>: then \<^verbatim>\<open>acquire\<close> rejects after that one
  call with the wrapped \<open>e\<close>. Every other rejection, the signal that the lock is
  already held among them, is retryable: \<^verbatim>\<open>acquire\<close> sleeps once and, when the
  retry count is \<open>-1\<close> or at least 1, calls the primitive again in the world the
  first call left. If that second call resolves, \<^verbatim>\<open>acquire\<close> resolves after two
  calls and one sleep; if it is rejected with \<^verbatim>\<open>ENOTACQUIRED\<close>, \<^verbatim>\<open>acquire\<close> rejects
  with that error wrapped, after two calls and one sleep; and whatever it yields,
  a run that settles has made at least two calls. With retry count 0
  \<^verbatim>\<open>acquire\<close> rejects after the one call and the one sleep with the wrapped error
  that the maximum of 1 try was exceeded.
\<close>

theorem acquire_stops_on_not_acquired_only:
  assumes "lock X (path identifier) (generateOptions X this identifier defaultLockOptions) w
             = (Rejected e, w')"
    and "- 1 \<le> retryCount (attemptSettings this)"
  shows "toRetryOnError stopOnError
           (lock X (path identifier) (generateOptions X this identifier defaultLockOptions)) w =
         (Resolved \<lparr>shouldRetry = \<not> (isCodedError e \<and> getProp e ''code'' = JStr ''ENOTACQUIRED''),
                    response = JUndefined, error = e\<rparr>, w')
    \<and> (isCodedError e \<and> getProp e ''code'' = JStr ''ENOTACQUIRED'' \<longrightarrow>
         acquire X this identifier w =
           Some \<lparr>outcome = Rejected (InternalServerError
                    (''Error trying to acquire lock for '' @ path identifier @ ''. ''
                       @ createErrorMessage X e)),
                 calls = 1, slept = [], world = w'\<rparr>)
    \<and> (\<not> (isCodedError e \<and> getProp e ''code'' = JStr ''ENOTACQUIRED'')
         \<and> (retryCount (attemptSettings this) = - 1 \<or> 1 \<le> retryCount (attemptSettings this)) \<longrightarrow>
         (\<forall>v w''. lock X (path identifier)
                    (generateOptions X this identifier defaultLockOptions) w' = (Resolved v, w'') \<longrightarrow>
            acquire X this identifier w =
              Some \<lparr>outcome = Resolved JUndefined, calls = 2,
                    slept = [setJitterTimeout (retryDelay (attemptSettings this))
                               (retryJitter (attemptSettings this)) (random X 0)],
                    world = w''\<rparr>)
       \<and> (\<forall>e2 w''. lock X (path identifier)
                    (generateOptions X this identifier defaultLockOptions) w' = (Rejected e2, w'')
                  \<and> stopOnError e2 \<longrightarrow>
            acquire X this identifier w =
              Some \<lparr>outcome = Rejected (InternalServerError
                       (''Error trying to acquire lock for '' @ path identifier @ ''. ''
                          @ createErrorMessage X e2)),
                    calls = 2,
                    slept = [setJitterTimeout (retryDelay (attemptSettings this))
                               (retryJitter (attemptSettings this)) (random X 0)],
                    world = w''\<rparr>)
       \<and> (\<forall>r. acquire X this identifier w = Some r \<longrightarrow> 2 \<le> calls r))
    \<and> (\<not> (isCodedError e \<and> getProp e ''code'' = JStr ''ENOTACQUIRED'')
         \<and> retryCount (attemptSettings this) = 0 \<longrightarrow>
         acquire X this identifier w =
           Some \<lparr>outcome = Rejected (InternalServerError
                    (''Error trying to acquire lock for '' @ path identifier @ ''. ''
                       @ createErrorMessage X (maxTriesError (Some 1)))),
                 calls = 1,
                 slept = [setJitterTimeout (retryDelay (attemptSettings this))
                            (retryJitter (attemptSettings this)) (random X 0)],
                 world = w'\<rparr>)
    \<and> (\<not> (isCodedError e \<and> getProp e ''code'' = JStr ''ENOTACQUIRED'') \<longrightarrow>
         (\<forall>r. acquire X this identifier w = Some r \<longrightarrow> slept r \<noteq> []))
    \<and> (alreadyHeld e \<longrightarrow> \<not> (isCodedError e \<and> getProp e ''code'' = JStr ''ENOTACQUIRED''))"
proof -
  let ?fn = "lock X (path identifier) (generateOptions X this identifier defaultLockOptions)"
  let ?stop = "isCodedError e \<and> getProp e ''code'' = JStr ''ENOTACQUIRED''"
  let ?wrap = "\<lambda>err. InternalServerError
           (''Error trying to acquire lock for '' @ path identifier @ ''. ''
              @ createErrorMessage X err)"
  let ?s0 = "setJitterTimeout (retryDelay (attemptSettings this))
               (retryJitter (attemptSettings this)) (random X 0)"
  have acq: "acquire X this identifier w = map_option (wrapFailure ?wrap) (retryUntilError X this ?fn w)"
    by (simp add: acquire_def)
  have st: "stopOnError e \<longleftrightarrow> ?stop" by (simp add: stopOnError_def)
  have A: "toRetryOnError stopOnError ?fn w =
         (Resolved \<lparr>shouldRetry = \<not> ?stop, response = JUndefined, error = e\<rparr>, w')"
    using assms(1) by (simp add: toRetryOnError_def stopOnError_def)
  have B: "?stop \<longrightarrow> acquire X this identifier w =
           Some \<lparr>outcome = Rejected (?wrap e), calls = 1, slept = [], world = w'\<rparr>"
  proof
    assume ?stop
    then have "stopOnError e" by (simp add: st)
    from retryUntilError_stop[where X = X and w = w and fn = ?fn, OF assms(1) this assms(2)]
    show "acquire X this identifier w =
           Some \<lparr>outcome = Rejected (?wrap e), calls = 1, slept = [], world = w'\<rparr>"
      by (simp add: acq wrapFailure_def)
  qed
  have C: "\<not> ?stop \<and> (retryCount (attemptSettings this) = - 1 \<or> 1 \<le> retryCount (attemptSettings this)) \<longrightarrow>
         (\<forall>v w''. ?fn w' = (Resolved v, w'') \<longrightarrow>
            acquire X this identifier w =
              Some \<lparr>outcome = Resolved JUndefined, calls = 2, slept = [?s0], world = w''\<rparr>)
       \<and> (\<forall>e2 w''. ?fn w' = (Rejected e2, w'') \<and> stopOnError e2 \<longrightarrow>
            acquire X this identifier w =
              Some \<lparr>outcome = Rejected (?wrap e2), calls = 2, slept = [?s0], world = w''\<rparr>)
       \<and> (\<forall>r. acquire X this identifier w = Some r \<longrightarrow> 2 \<le> calls r)"
  proof (intro impI conjI allI)
    assume h: "\<not> ?stop \<and> (retryCount (attemptSettings this) = - 1 \<or> 1 \<le> retryCount (attemptSettings this))"
    then have ns: "\<not> stopOnError e" and bud: "retryCount (attemptSettings this) = - 1 \<or> 1 \<le> retryCount (attemptSettings this)"
      by (simp_all add: st)
    show "acquire X this identifier w =
              Some \<lparr>outcome = Resolved JUndefined, calls = 2, slept = [?s0], world = w''\<rparr>"
      if "?fn w' = (Resolved v, w'')" for v w''
    proof -
      have "toRetryOnError stopOnError ?fn w' =
          (Resolved \<lparr>shouldRetry = False, response = v, error = JUndefined\<rparr>, w'')"
        using that by (simp add: toRetryOnError_def)
      from retryUntilError_then_settled[where X = X and fn = ?fn and w = w, OF assms(1) ns bud this]
      show ?thesis by (simp add: acq wrapFailure_def)
    qed
    show "acquire X this identifier w =
              Some \<lparr>outcome = Rejected (?wrap e2), calls = 2, slept = [?s0], world = w''\<rparr>"
      if "?fn w' = (Rejected e2, w'') \<and> stopOnError e2" for e2 w''
    proof -
      have "toRetryOnError stopOnError ?fn w' =
          (Resolved \<lparr>shouldRetry = False, response = JUndefined, error = e2\<rparr>, w'')"
        using that by (simp add: toRetryOnError_def)
      from retryUntilError_then_settled[where X = X and fn = ?fn and w = w, OF assms(1) ns bud this]
        stopOnError_truthy[of e2] that
      show ?thesis by (simp add: acq wrapFailure_def)
    qed
    show "2 \<le> calls r" if r: "acquire X this identifier w = Some r" for r
    proof -
      from r obtain r0 where r0: "retryUntilError X this ?fn w = Some r0"
        and "r = wrapFailure ?wrap r0"
        by (auto simp: acq)
      then have "calls r = calls r0"
        by (simp add: wrapFailure_def split: completion.splits)
      with retryUntilError_two_calls[where X = X and w = w and fn = ?fn, OF assms(1) ns bud r0]
      show ?thesis by simp
    qed
  qed
  have D: "\<not> ?stop \<and> retryCount (attemptSettings this) = 0 \<longrightarrow>
         acquire X this identifier w =
           Some \<lparr>outcome = Rejected (?wrap (maxTriesError (Some 1))), calls = 1,
                 slept = [?s0], world = w'\<rparr>"
  proof
    assume h: "\<not> ?stop \<and> retryCount (attemptSettings this) = 0"
    then have ns: "\<not> stopOnError e" and z: "retryCount (attemptSettings this) = 0"
      by (simp_all add: st)
    from retryUntilError_single_try[where X = X and fn = ?fn and w = w, OF assms(1) ns z]
    show "acquire X this identifier w =
           Some \<lparr>outcome = Rejected (?wrap (maxTriesError (Some 1))), calls = 1,
                 slept = [?s0], world = w'\<rparr>"
      by (simp add: acq wrapFailure_def)
  qed
  have E: "\<not> ?stop \<longrightarrow> (\<forall>r. acquire X this identifier w = Some r \<longrightarrow> slept r \<noteq> [])"
  proof (intro impI allI)
    fix r
    assume n: "\<not> ?stop" and r: "acquire X this identifier w = Some r"
    from n have ns: "\<not> stopOnError e" by (simp add: st)
    from r obtain r0 where r0: "retryUntilError X this ?fn w = Some r0"
      and "r = wrapFailure ?wrap r0"
      by (auto simp: acq)
    then have "slept r = slept r0"
      by (simp add: wrapFailure_def split: completion.splits)
    with retryUntilError_retry[where X = X and w = w and fn = ?fn, OF assms(1) ns assms(2) r0]
    show "slept r \<noteq> []" by simp
  qed
  have F: "alreadyHeld e \<longrightarrow> \<not> ?stop" by (simp add: alreadyHeld_def)
  from A B C D E F show ?thesis by blast
qed

lemmas run_simps =
  acquire_def release_def retryUntilError_def retryFunctionUntil_def maxTriesOf_def
  exampleLocker_def rejecting_def toRetryOnError_def stopOnError_def codedError_def
  retryLoop.simps setJitterTimeout_example wrapFailure_def maxTriesError_def
  InternalServerError_def numberToString_def

text \<open>
  C1, as stated, fails: a rejection with the code that means ``already held'' is a
  retryable outcome, so \<^verbatim>\<open>acquire\<close> with one retry calls the primitive twice and
  then runs out of tries; and the code for which the outcome is terminal,
  \<^verbatim>\<open>ENOTACQUIRED\<close>, does not mean ``already held''.
\<close>

theorem acquire_already_held_counterexample:
  "alreadyHeld (codedError ''ELOCKED'' ''Lock file is already being held'')
   \<and> toRetryOnError stopOnError
        (lock (rejecting (codedError ''ELOCKED'' ''Lock file is already being held''))
           ''/alice/foo.ttl''
           (generateOptions (rejecting (codedError ''ELOCKED'' ''Lock file is already being held''))
              (exampleLocker 1) \<lparr>path = ''/alice/foo.ttl''\<rparr> defaultLockOptions)) 0 =
       (Resolved \<lparr>shouldRetry = True, response = JUndefined,
                  error = codedError ''ELOCKED'' ''Lock file is already being held''\<rparr>, 1)
   \<and> acquire (rejecting (codedError ''ELOCKED'' ''Lock file is already being held''))
        (exampleLocker 1) \<lparr>path = ''/alice/foo.ttl''\<rparr> 0 =
       Some \<lparr>outcome = Rejected (InternalServerError
          ''Error trying to acquire lock for /alice/foo.ttl. The operation did not succeed after the set maximum of tries (2).''),
         calls = 2, slept = [51, 51], world = 2\<rparr>
   \<and> \<not> alreadyHeld (codedError ''ENOTACQUIRED'' ''Lock is not acquired/owned by you'')
   \<and> toRetryOnError stopOnError
        (lock (rejecting (codedError ''ENOTACQUIRED'' ''Lock is not acquired/owned by you''))
           ''/alice/foo.ttl''
           (generateOptions (rejecting (codedError ''ENOTACQUIRED'' ''Lock is not acquired/owned by you''))
              (exampleLocker 1) \<lparr>path = ''/alice/foo.ttl''\<rparr> defaultLockOptions)) 0 =
       (Resolved \<lparr>shouldRetry = False, response = JUndefined,
                  error = codedError ''ENOTACQUIRED'' ''Lock is not acquired/owned by you''\<rparr>, 1)"
proof (intro conjI)
  show "alreadyHeld (codedError ''ELOCKED'' ''Lock file is already being held'')"
    by (simp add: alreadyHeld_def codedError_def)
  show "\<not> alreadyHeld (codedError ''ENOTACQUIRED'' ''Lock is not acquired/owned by you'')"
    by (simp add: alreadyHeld_def codedError_def)
qed (simp_all add: run_simps)

theorem acquire_stops_on_not_acquired_only_witness:
  "toRetryOnError stopOnError
       (lock busyOnce ''/alice/foo.ttl''
          (generateOptions busyOnce (exampleLocker 1) \<lparr>path = ''/alice/foo.ttl''\<rparr>
             defaultLockOptions)) 0 =
     (Resolved \<lparr>shouldRetry = True, response = JUndefined,
                error = codedError ''ELOCKED'' ''Lock file is already being held''\<rparr>, 1)
   \<and> acquire busyOnce (exampleLocker 1) \<lparr>path = ''/alice/foo.ttl''\<rparr> 0 =
       Some \<lparr>outcome = Resolved JUndefined, calls = 2, slept = [51], world = 2\<rparr>
   \<and> acquire (rejecting (codedError ''ELOCKED'' ''Lock file is already being held''))
        (exampleLocker 0) \<lparr>path = ''/alice/foo.ttl''\<rparr> 0 =
       Some \<lparr>outcome = Rejected (InternalServerError
          ''Error trying to acquire lock for /alice/foo.ttl. The operation did not succeed after the set maximum of tries (1).''),
         calls = 1, slept = [51], world = 1\<rparr>
   \<and> acquire (rejecting (codedError ''ENOTACQUIRED'' ''Lock is not acquired/owned by you''))
        (exampleLocker 1) \<lparr>path = ''/alice/foo.ttl''\<rparr> 0 =
       Some \<lparr>outcome = Rejected (InternalServerError
          ''Error trying to acquire lock for /alice/foo.ttl. Lock is not acquired/owned by you''),
         calls = 1, slept = [], world = 1\<rparr>"
proof -
  let ?L = "codedError ''ELOCKED'' ''Lock file is already being held''"
  let ?N = "codedError ''ENOTACQUIRED'' ''Lock is not acquired/owned by you''"
  let ?i = "\<lparr>path = ''/alice/foo.ttl''\<rparr>"
  have b1: "- 1 \<le> retryCount (attemptSettings (exampleLocker 1))"
    and b0: "- 1 \<le> retryCount (attemptSettings (exampleLocker 0))"
    by (simp_all add: exampleLocker_def)
  have l: "lock busyOnce (path ?i)
             (generateOptions busyOnce (exampleLocker 1) ?i defaultLockOptions) 0
           = (Rejected ?L, 1)"
    by (simp add: busyOnce_def)
  have l2: "lock busyOnce (path ?i)
             (generateOptions busyOnce (exampleLocker 1) ?i defaultLockOptions) 1
           = (Resolved (JFun ''release''), 2)"
    by (simp add: busyOnce_def)
  have z: "lock (rejecting ?L) (path ?i)
             (generateOptions (rejecting ?L) (exampleLocker 0) ?i defaultLockOptions) 0
           = (Rejected ?L, 1)"
    by (simp add: rejecting_def)
  have n: "lock (rejecting ?N) (path ?i)
             (generateOptions (rejecting ?N) (exampleLocker 1) ?i defaultLockOptions) 0
           = (Rejected ?N, 1)"
    by (simp add: rejecting_def)
  have nl: "\<not> (isCodedError ?L \<and> getProp ?L ''code'' = JStr ''ENOTACQUIRED'')"
    by (simp add: codedError_def)
  have sn: "isCodedError ?N \<and> getProp ?N ''code'' = JStr ''ENOTACQUIRED''"
    by (simp add: codedError_def)
  have s1: "setJitterTimeout (retryDelay (attemptSettings (exampleLocker 1)))
              (retryJitter (attemptSettings (exampleLocker 1))) (random busyOnce 0) = 51"
    by (simp add: exampleLocker_def busyOnce_def setJitterTimeout_example)
  have s0: "setJitterTimeout (retryDelay (attemptSettings (exampleLocker 0)))
              (retryJitter (attemptSettings (exampleLocker 0))) (random (rejecting ?L) 0) = 51"
    by (simp add: exampleLocker_def rejecting_def setJitterTimeout_example)
  have r1: "retryCount (attemptSettings (exampleLocker 1)) = - 1
            \<or> 1 \<le> retryCount (attemptSettings (exampleLocker 1))"
    and r0: "retryCount (attemptSettings (exampleLocker 0)) = 0"
    by (simp_all add: exampleLocker_def)
  have 1: "toRetryOnError stopOnError
       (lock busyOnce ''/alice/foo.ttl''
          (generateOptions busyOnce (exampleLocker 1) ?i defaultLockOptions)) 0 =
     (Resolved \<lparr>shouldRetry = True, response = JUndefined, error = ?L\<rparr>, 1)"
    using acquire_stops_on_not_acquired_only[OF l b1] nl by simp
  have 2: "acquire busyOnce (exampleLocker 1) ?i 0 =
       Some \<lparr>outcome = Resolved JUndefined, calls = 2, slept = [51], world = 2\<rparr>"
    using acquire_stops_on_not_acquired_only[OF l b1] nl r1 l2 unfolding s1 by blast
  have m: "createErrorMessage (rejecting ?L) (maxTriesError (Some 1)) =
      ''The operation did not succeed after the set maximum of tries (1).''"
    by (simp add: rejecting_def maxTriesError_def InternalServerError_def numberToString_def)
  have 3: "acquire (rejecting ?L) (exampleLocker 0) ?i 0 =
       Some \<lparr>outcome = Rejected (InternalServerError
          ''Error trying to acquire lock for /alice/foo.ttl. The operation did not succeed after the set maximum of tries (1).''),
         calls = 1, slept = [51], world = 1\<rparr>"
    using acquire_stops_on_not_acquired_only[OF z b0] nl r0 unfolding s0 m by simp
  have 4: "acquire (rejecting ?N) (exampleLocker 1) ?i 0 =
       Some \<lparr>outcome = Rejected (InternalServerError
          ''Error trying to acquire lock for /alice/foo.ttl. Lock is not acquired/owned by you''),
         calls = 1, slept = [], world = 1\<rparr>"
    using acquire_stops_on_not_acquired_only[OF n b1] sn
    by (simp add: codedError_def rejecting_def)
  from 1 2 3 4 show ?thesis by blast
qed

text \<open>
  C5, amended. Whenever \<^verbatim>\<open>acquire\<close> or \<^verbatim>\<open>release\<close> fails because the retry budget
  is exhausted (the retry count is \<open>k \<ge> 0\<close> and the primitive rejects every call
  with an error the stop condition does not match), the single error surfaced is
  the \<^verbatim>\<open>InternalServerError\<close> whose message names the resource path and ends with
  \<^verbatim>\<open>createErrorMessage\<close> of the engine's own error, which says that the maximum of
  \<open>k + 1\<close> tries was exceeded. The errors of the attempts do not appear in it.
\<close>

theorem budget_exhausted_error:
  assumes "0 \<le> k" and "retryCount (attemptSettings this) = k"
  shows "((\<forall>w. \<exists>e w'. lock X (path identifier)
               (generateOptions X this identifier defaultLockOptions) w = (Rejected e, w')
             \<and> \<not> stopOnError e) \<longrightarrow>
          (\<exists>zs w'. acquire X this identifier w =
             Some \<lparr>outcome = Rejected (InternalServerError
                      (''Error trying to acquire lock for '' @ path identifier @ ''. ''
                         @ createErrorMessage X (maxTriesError (Some (k + 1))))),
                   calls = nat k + 1, slept = zs, world = w'\<rparr>))
    \<and> ((\<forall>w. \<exists>e w'. unlock X (path identifier)
               (generateOptions X this identifier defaultUnlockOptions) w = (Rejected e, w')
             \<and> \<not> stopOnError e) \<longrightarrow>
          (\<exists>zs w'. release X this identifier w =
             Some \<lparr>outcome = Rejected (InternalServerError
                      (''Error trying to release lock for '' @ path identifier @ ''.  ''
                         @ createErrorMessage X (maxTriesError (Some (k + 1))))),
                   calls = nat k + 1, slept = zs, world = w'\<rparr>))"
proof (intro conjI impI)
  have n: "nat (k + 1) = nat k + 1" using assms(1) by (simp add: nat_add_distrib)
  {
    assume "\<forall>w. \<exists>e w'. lock X (path identifier)
               (generateOptions X this identifier defaultLockOptions) w = (Rejected e, w')
             \<and> \<not> stopOnError e"
    from retryUntilError_exhausted[OF assms this, of X w]
    show "\<exists>zs w'. acquire X this identifier w =
             Some \<lparr>outcome = Rejected (InternalServerError
                      (''Error trying to acquire lock for '' @ path identifier @ ''. ''
                         @ createErrorMessage X (maxTriesError (Some (k + 1))))),
                   calls = nat k + 1, slept = zs, world = w'\<rparr>"
      by (auto simp: acquire_def wrapFailure_def n)
  }
  {
    assume "\<forall>w. \<exists>e w'. unlock X (path identifier)
               (generateOptions X this identifier defaultUnlockOptions) w = (Rejected e, w')
             \<and> \<not> stopOnError e"
    from retryUntilError_exhausted[OF assms this, of X w]
    show "\<exists>zs w'. release X this identifier w =
             Some \<lparr>outcome = Rejected (InternalServerError
                      (''Error trying to release lock for '' @ path identifier @ ''.  ''
                         @ createErrorMessage X (maxTriesError (Some (k + 1))))),
                   calls = nat k + 1, slept = zs, world = w'\<rparr>"
      by (auto simp: release_def wrapFailure_def n)
  }
qed

text \<open>
  C5, as stated, fails: with two retries and a primitive that always rejects, the
  surfaced error holds the path and the count of tries, and is the same error
  whether the attempts were rejected with \<^verbatim>\<open>ELOCKED\<close> or with \<^verbatim>\<open>EIO\<close>: the last
  underlying cause is not in it.
\<close>

theorem budget_exhausted_error_counterexample:
  "acquire (rejecting (codedError ''ELOCKED'' ''Lock file is already being held''))
      (exampleLocker 2) \<lparr>path = ''/alice/foo.ttl''\<rparr> 0 =
     Some \<lparr>outcome = Rejected (InternalServerError
        ''Error trying to acquire lock for /alice/foo.ttl. The operation did not succeed after the set maximum of tries (3).''),
       calls = 3, slept = [51, 51, 51], world = 3\<rparr>
   \<and> acquire (rejecting (codedError ''EIO'' ''i/o error''))
      (exampleLocker 2) \<lparr>path = ''/alice/foo.ttl''\<rparr> 0 =
     Some \<lparr>outcome = Rejected (InternalServerError
        ''Error trying to acquire lock for /alice/foo.ttl. The operation did not succeed after the set maximum of tries (3).''),
       calls = 3, slept = [51, 51, 51], world = 3\<rparr>
   \<and> release (rejecting (codedError ''EIO'' ''i/o error''))
      (exampleLocker 2) \<lparr>path = ''/alice/foo.ttl''\<rparr> 0 =
     Some \<lparr>outcome = Rejected (InternalServerError
        ''Error trying to release lock for /alice/foo.ttl.  The operation did not succeed after the set maximum of tries (3).''),
       calls = 3, slept = [51, 51, 51], world = 3\<rparr>"
  by (simp add: run_simps)

theorem budget_exhausted_error_witness:
  "\<exists>zs w'. acquire (rejecting (codedError ''ELOCKED'' ''Lock file is already being held''))
      (exampleLocker 2) \<lparr>path = ''/alice/foo.ttl''\<rparr> 0 =
     Some \<lparr>outcome = Rejected (InternalServerError
        ''Error trying to acquire lock for /alice/foo.ttl. The operation did not succeed after the set maximum of tries (3).''),
       calls = 3, slept = zs, world = w'\<rparr>"
proof -
  let ?L = "codedError ''ELOCKED'' ''Lock file is already being held''"
  have k: "(0::int) \<le> 2" "retryCount (attemptSettings (exampleLocker 2)) = 2"
    by (simp_all add: exampleLocker_def)
  have h: "\<forall>w. \<exists>e w'. lock (rejecting ?L) (path \<lparr>path = ''/alice/foo.ttl''\<rparr>)
               (generateOptions (rejecting ?L) (exampleLocker 2) \<lparr>path = ''/alice/foo.ttl''\<rparr>
                  defaultLockOptions) w = (Rejected e, w')
             \<and> \<not> stopOnError e"
    by (simp add: rejecting_def stopOnError_def codedError_def)
  have m: "createErrorMessage (rejecting ?L) (maxTriesError (Some (2 + 1))) =
      ''The operation did not succeed after the set maximum of tries (3).''"
    by (simp add: rejecting_def maxTriesError_def InternalServerError_def numberToString_def)
  from budget_exhausted_error[OF k, of "rejecting ?L" "\<lparr>path = ''/alice/foo.ttl''\<rparr>" 0] h
  show ?thesis
    unfolding m by simp
qed


section \<open>Properties of finalize\<close>

lemma nodeRmdir_first_entry:
  "nodeRmdir folder (folder @ ''/'' @ n) (Some (Dir ((n, k) # es))) =
     (case k of
        File \<Rightarrow> (Rejected (fsError ''ENOTDIR''), Some (Dir ((n, k) # es)))
      | Dir [] \<Rightarrow> (Resolved (), Some (Dir es))
      | Dir (c # cs) \<Rightarrow> (Rejected (fsError ''ENOTEMPTY''), Some (Dir ((n, k) # es))))"
  by (simp split: fsnode.splits list.splits)

lemma rmdirEach_sweep:
  assumes "set (map snd pre) \<subseteq> {Dir []}"
  shows "rmdirEach (nodeFs folder) folder (map fst pre @ ns) (Some (Dir (pre @ es))) =
         rmdirEach (nodeFs folder) folder ns (Some (Dir es))"
  using assms
proof (induction pre)
  case Nil
  then show ?case by simp
next
  case (Cons a pre)
  obtain n k where a: "a = (n, k)" by (cases a)
  with Cons.prems have k: "k = Dir []" by simp
  have "rmdir (nodeFs folder) (folder @ ''/'' @ n) (Some (Dir ((n, k) # pre @ es))) =
        (Resolved (), Some (Dir (pre @ es)))"
    unfolding nodeFs_def using k by (simp only: fsExtra.simps nodeRmdir_first_entry) simp
  with Cons a show ?case by simp
qed

lemma rmdirEach_all:
  assumes "set (map snd es) \<subseteq> {Dir []}"
  shows "rmdirEach (nodeFs folder) folder (map fst es) (Some (Dir es)) =
         (Resolved (), Some (Dir []))"
  using rmdirEach_sweep[OF assms, of folder "[]" "[]"] by simp

lemma rmdirEach_stuck:
  assumes "set (map snd pre) \<subseteq> {Dir []}" "k \<noteq> Dir []"
  shows "rmdirEach (nodeFs folder) folder (map fst pre @ n # map fst post)
           (Some (Dir (pre @ (n, k) # post))) =
         (Rejected (fsError (case k of File \<Rightarrow> ''ENOTDIR'' | Dir cs \<Rightarrow> ''ENOTEMPTY'')),
          Some (Dir ((n, k) # post)))"
proof -
  have "rmdir (nodeFs folder) (folder @ ''/'' @ n) (Some (Dir ((n, k) # post))) =
        (Rejected (fsError (case k of File \<Rightarrow> ''ENOTDIR'' | Dir cs \<Rightarrow> ''ENOTEMPTY'')),
          Some (Dir ((n, k) # post)))"
    unfolding nodeFs_def using assms(2)
    by (simp only: fsExtra.simps nodeRmdir_first_entry) (simp split: fsnode.splits list.splits)
  then have "rmdirEach (nodeFs folder) folder (n # map fst post) (Some (Dir ((n, k) # post))) =
        (Rejected (fsError (case k of File \<Rightarrow> ''ENOTDIR'' | Dir cs \<Rightarrow> ''ENOTEMPTY'')),
          Some (Dir ((n, k) # post)))"
    by simp
  with rmdirEach_sweep[OF assms(1), of folder "n # map fst post" "(n, k) # post"]
  show ?thesis by simp
qed

text \<open>
  C9, amended. \<^verbatim>\<open>finalize\<close> succeeds, changing nothing, when the lock directory is
  absent, and removes the directory when it is empty. When the directory holds
  entries that are all empty directories, as the locks of the primitive are,
  \<^verbatim>\<open>finalize\<close> removes every entry and then the directory itself. At the first
  entry that \<^verbatim>\<open>rmdir\<close> rejects, a file or a directory with entries, \<^verbatim>\<open>finalize\<close>
  rejects with that error and leaves that entry, the entries after it and the
  directory in place.
\<close>

theorem finalize_sweeps_lock_directories:
  "finalize (nodeFs (lockFolder this)) this None = (Resolved (), None)
   \<and> finalize (nodeFs (lockFolder this)) this (Some (Dir [])) = (Resolved (), None)
   \<and> (set (map snd es) \<subseteq> {Dir []} \<longrightarrow>
        finalize (nodeFs (lockFolder this)) this (Some (Dir es)) = (Resolved (), None))
   \<and> (set (map snd pre) \<subseteq> {Dir []} \<and> k \<noteq> Dir [] \<longrightarrow>
        finalize (nodeFs (lockFolder this)) this (Some (Dir (pre @ (n, k) # post))) =
          (Rejected (fsError (case k of File \<Rightarrow> ''ENOTDIR'' | Dir cs \<Rightarrow> ''ENOTEMPTY'')),
           Some (Dir ((n, k) # post))))"
proof (intro conjI impI)
  let ?F = "nodeFs (lockFolder this)"
  have ex: "pathExists ?F (lockFolder this) (Some (Dir xs)) = (Resolved True, Some (Dir xs))" for xs
    by (simp add: nodeFs_def)
  have rd: "readdir ?F (lockFolder this) (Some (Dir xs)) = (Resolved (map fst xs), Some (Dir xs))" for xs
    by (simp add: nodeFs_def)
  have last: "rmdir ?F (lockFolder this) (Some (Dir [])) = (Resolved (), None)"
    by (simp add: nodeFs_def)
  show "finalize ?F this None = (Resolved (), None)"
    by (simp add: finalize_def nodeFs_def)
  show "finalize ?F this (Some (Dir [])) = (Resolved (), None)"
    by (simp add: finalize_def ex rd last)
  show "finalize ?F this (Some (Dir es)) = (Resolved (), None)"
    if "set (map snd es) \<subseteq> {Dir []}"
    by (simp add: finalize_def ex rd last rmdirEach_all[OF that])
  show "finalize ?F this (Some (Dir (pre @ (n, k) # post))) =
          (Rejected (fsError (case k of File \<Rightarrow> ''ENOTDIR'' | Dir cs \<Rightarrow> ''ENOTEMPTY'')),
           Some (Dir ((n, k) # post)))"
    if "set (map snd pre) \<subseteq> {Dir []} \<and> k \<noteq> Dir []"
  proof -
    from that have p: "set (map snd pre) \<subseteq> {Dir []}" and k: "k \<noteq> Dir []" by simp_all
    show ?thesis
      by (simp add: finalize_def ex rd rmdirEach_stuck[OF p k])
  qed
qed

text \<open>
  C9, as stated, fails: a lock directory that holds a regular file between two
  stale locks is not removed; \<^verbatim>\<open>finalize\<close> rejects with \<^verbatim>\<open>ENOTDIR\<close> at the
  file, and the file, the lock after it and the directory remain.
\<close>

theorem finalize_residual_file_counterexample:
  "finalize (nodeFs ''/data/.internal/locks'') (exampleLocker 2)
     (Some (Dir [(''3858f62230ac3c915f300c664312c63f'', Dir []), (''notes.txt'', File),
                 (''1f3870be274f6c49b3e31a0c6728957f'', Dir [])])) =
   (Rejected (fsError ''ENOTDIR''),
    Some (Dir [(''notes.txt'', File), (''1f3870be274f6c49b3e31a0c6728957f'', Dir [])]))"
  by (simp add: finalize_def nodeFs_def exampleLocker_def)

theorem finalize_sweeps_lock_directories_witness:
  "finalize (nodeFs ''/data/.internal/locks'') (exampleLocker 2)
     (Some (Dir [(''3858f62230ac3c915f300c664312c63f'', Dir []),
                 (''1f3870be274f6c49b3e31a0c6728957f'', Dir [])])) = (Resolved (), None)
   \<and> finalize (nodeFs ''/data/.internal/locks'') (exampleLocker 2)
     (Some (Dir [(''3858f62230ac3c915f300c664312c63f'', Dir []),
                 (''stale'', Dir [(''inner'', File)])])) =
       (Rejected (fsError ''ENOTEMPTY''), Some (Dir [(''stale'', Dir [(''inner'', File)])]))"
proof -
  have f: "lockFolder (exampleLocker 2) = ''/data/.internal/locks''"
    by (simp add: exampleLocker_def)
  have 1: "finalize (nodeFs ''/data/.internal/locks'') (exampleLocker 2)
     (Some (Dir [(''3858f62230ac3c915f300c664312c63f'', Dir []),
                 (''1f3870be274f6c49b3e31a0c6728957f'', Dir [])])) = (Resolved (), None)"
    using finalize_sweeps_lock_directories[of "exampleLocker 2"
        "[(''3858f62230ac3c915f300c664312c63f'', Dir []),
          (''1f3870be274f6c49b3e31a0c6728957f'', Dir [])]" "[]" File "''x''" "[]"]
    unfolding f by simp
  have 2: "finalize (nodeFs ''/data/.internal/locks'') (exampleLocker 2)
     (Some (Dir [(''3858f62230ac3c915f300c664312c63f'', Dir []),
                 (''stale'', Dir [(''inner'', File)])])) =
       (Rejected (fsError ''ENOTEMPTY''), Some (Dir [(''stale'', Dir [(''inner'', File)])]))"
    using finalize_sweeps_lock_directories[of "exampleLocker 2" "[]"
        "[(''3858f62230ac3c915f300c664312c63f'', Dir [])]" "Dir [(''inner'', File)]" "''stale''" "[]"]
    unfolding f by simp
  from 1 2 show ?thesis by blast
qed


end
